theory Spec2Isabelle
  imports Complex_Main "HOL-Library.Multiset"
begin

section \<open>Conventions of the embedding\<close>

text \<open>
  The analytics and scoring code of the emotion recognition backend is embedded function
  by function. Python floats are idealised as \<^typ>\<open>real\<close>: every comparison and every
  arithmetic step of the source is kept, binary rounding error is not modelled (the
  peak detection, where it decides answers, takes its arithmetic as a parameter). A Python
  \<^verbatim>\<open>dict\<close> with string keys is an association list in insertion order (the order in which
  \<^verbatim>\<open>items()\<close> iterates); a Python \<^verbatim>\<open>str\<close> is a \<^typ>\<open>string\<close>, with the icons of the
  recommendation table written as their UTF-8 bytes.
\<close>

type_synonym emotions = "(string \<times> real) list"

subsection \<open>Python list slices\<close>

text \<open>
  \<^verbatim>\<open>xs[i:]\<close> and \<^verbatim>\<open>xs[i:j]\<close>: a negative bound counts from the end, and every bound is
  clamped to the list, so a slice never raises.
\<close>

definition py_bound :: "nat \<Rightarrow> int \<Rightarrow> nat" where
  "py_bound n i = (if i < 0 then nat (max 0 (int n + i)) else min n (nat i))"

definition py_slice_from :: "'a list \<Rightarrow> int \<Rightarrow> 'a list" where
  "py_slice_from xs i = drop (py_bound (length xs) i) xs"

definition py_slice :: "'a list \<Rightarrow> int \<Rightarrow> int \<Rightarrow> 'a list" where
  "py_slice xs i j =
     (let lo = py_bound (length xs) i; hi = py_bound (length xs) j
      in take (hi - lo) (drop lo xs))"

definition py_slice_to :: "'a list \<Rightarrow> int \<Rightarrow> 'a list" where
  "py_slice_to xs j = take (py_bound (length xs) j) xs"

subsection \<open>Exceptions and stored records\<close>

text \<open>
  The two exceptions the embedded code can raise, each with the name it was raised for.
\<close>

datatype py_error = KeyError string | AttributeError string

text \<open>A \<^verbatim>\<open>for\<close> loop whose body may raise: the first error ends it.\<close>

fun fold_result :: "('a \<Rightarrow> 's \<Rightarrow> 'e + 's) \<Rightarrow> 'a list \<Rightarrow> 's \<Rightarrow> 'e + 's" where
  "fold_result f [] s = Inr s"
| "fold_result f (x # xs) s =
     (case f x s of Inl e \<Rightarrow> Inl e | Inr s' \<Rightarrow> fold_result f xs s')"

text \<open>
  A stored \<^verbatim>\<open>EmotionRecord\<close> (models/emotion.py), as far as the embedded routes read it:
  the timestamp, an abstract instant whose \<^verbatim>\<open>isoformat()\<close> rendering is not modelled,
  and the dictionary of the column \<^verbatim>\<open>emotions_json\<close>.
\<close>

record emotion_record =
  timestamp :: nat
  emotions_json :: emotions

section \<open>Recommendation engine (routes/ml.py)\<close>

text \<open>A recommendation is the dictionary literal of the source, field by field.\<close>

record recommendation =
  rtype :: string
  title :: string
  description :: string
  action :: string
  duration :: string
  icon :: string

definition rec_keep_positive_energy :: recommendation where
  "rec_keep_positive_energy =
     \<lparr>rtype = ''maintain'', title = ''Keep the Positive Energy'',
      description = ''Share your joy with others through meaningful connections'',
      action = ''Call someone you care about'', duration = ''10-15 min'',
      icon = [CHR 0xF0, CHR 0x9F, CHR 0x93, CHR 0x9E]\<rparr>"

definition rec_channel_energy :: recommendation where
  "rec_channel_energy =
     \<lparr>rtype = ''creative'', title = ''Channel Your Energy'',
      description = ''Use this positive state for productive activities'',
      action = ''Work on a personal project or hobby'', duration = ''30+ min'',
      icon = [CHR 0xF0, CHR 0x9F, CHR 0x8E, CHR 0xA8]\<rparr>"

definition rec_gentle_self_care :: recommendation where
  "rec_gentle_self_care =
     \<lparr>rtype = ''support'', title = ''Gentle Self-Care'',
      description = ''Be kind to yourself during this time'',
      action = ''Take a warm shower or practice deep breathing'', duration = ''15-20 min'',
      icon = [CHR 0xF0, CHR 0x9F, CHR 0x9B, CHR 0x81]\<rparr>"

definition rec_reach_out :: recommendation where
  "rec_reach_out =
     \<lparr>rtype = ''connection'', title = ''Reach Out'',
      description = ''Human connection can provide comfort'',
      action = ''Text a trusted friend or family member'', duration = ''5-10 min'',
      icon = [CHR 0xF0, CHR 0x9F, CHR 0x92, CHR 0xAC]\<rparr>"

definition rec_mindful_moment :: recommendation where
  "rec_mindful_moment =
     \<lparr>rtype = ''mindfulness'', title = ''Mindful Moment'',
      description = ''Ground yourself in the present'',
      action = ''Try a 5-minute guided meditation'', duration = ''5 min'',
      icon = [CHR 0xF0, CHR 0x9F, CHR 0xA7, CHR 0x98]\<rparr>"

definition rec_physical_release :: recommendation where
  "rec_physical_release =
     \<lparr>rtype = ''release'', title = ''Physical Release'',
      description = ''Channel anger into movement'',
      action = ''Take a brisk walk or do some stretches'', duration = ''10-20 min'',
      icon = [CHR 0xF0, CHR 0x9F, CHR 0x9A, CHR 0xB6]\<rparr>"

definition rec_cool_down :: recommendation where
  "rec_cool_down =
     \<lparr>rtype = ''cooling'', title = ''Cool Down Period'',
      description = ''Give yourself time to process'',
      action = ''Step away and take 10 deep breaths'', duration = ''2-5 min'',
      icon = [CHR 0xE2, CHR 0x9D, CHR 0x84, CHR 0xEF, CHR 0xB8, CHR 0x8F]\<rparr>"

definition rec_express_safely :: recommendation where
  "rec_express_safely =
     \<lparr>rtype = ''expression'', title = ''Express Safely'',
      description = ''Write down your thoughts'',
      action = ''Journal about what triggered the anger'', duration = ''10-15 min'',
      icon = [CHR 0xF0, CHR 0x9F, CHR 0x93, CHR 0x9D]\<rparr>"

definition rec_process_moment :: recommendation where
  "rec_process_moment =
     \<lparr>rtype = ''process'', title = ''Process the Moment'',
      description = ''Take time to understand what happened'',
      action = ''Reflect on the situation calmly'', duration = ''5-10 min'',
      icon = [CHR 0xF0, CHR 0x9F, CHR 0xA4, CHR 0x94]\<rparr>"

definition rec_adapt_and_learn :: recommendation where
  "rec_adapt_and_learn =
     \<lparr>rtype = ''adaptation'', title = ''Adapt and Learn'',
      description = ''Use surprise as a learning opportunity'',
      action = ''Consider what this teaches you'', duration = ''10 min'',
      icon = [CHR 0xF0, CHR 0x9F, CHR 0x92, CHR 0xA1]\<rparr>"

definition rec_grounding_exercise :: recommendation where
  "rec_grounding_exercise =
     \<lparr>rtype = ''grounding'', title = ''Grounding Exercise'',
      description = ''Focus on your immediate environment'',
      action = ''Name 5 things you can see, 4 you can touch, 3 you can hear'',
      duration = ''3-5 min'',
      icon = [CHR 0xF0, CHR 0x9F, CHR 0x8C, CHR 0xB1]\<rparr>"

definition rec_create_safety :: recommendation where
  "rec_create_safety =
     \<lparr>rtype = ''safety'', title = ''Create Safety'',
      description = ''Move to a comfortable, safe space'',
      action = ''Go somewhere you feel secure'', duration = ''5 min'',
      icon = [CHR 0xF0, CHR 0x9F, CHR 0x8F, CHR 0xA0]\<rparr>"

definition rec_calm_breathing :: recommendation where
  "rec_calm_breathing =
     \<lparr>rtype = ''breathing'', title = ''Calm Breathing'',
      description = ''Regulate your nervous system'',
      action = ''Practice 4-7-8 breathing technique'', duration = ''5-10 min'',
      icon = [CHR 0xF0, CHR 0x9F, CHR 0xAB, CHR 0x81]\<rparr>"

definition rec_emotional_check_in :: recommendation where
  "rec_emotional_check_in =
     \<lparr>rtype = ''awareness'', title = ''Emotional Check-In'',
      description = ''Tune into how you'' @ [CHR 0x27] @ ''re really feeling'',
      action = ''Spend a moment identifying your emotions'', duration = ''3-5 min'',
      icon = [CHR 0xF0, CHR 0x9F, CHR 0x8E, CHR 0xAF]\<rparr>"

definition rec_gentle_activity :: recommendation where
  "rec_gentle_activity =
     \<lparr>rtype = ''engagement'', title = ''Gentle Activity'',
      description = ''Engage in something mildly pleasant'',
      action = ''Listen to music or look at nature'', duration = ''10-15 min'',
      icon = [CHR 0xF0, CHR 0x9F, CHR 0x8E, CHR 0xB5]\<rparr>"

definition rec_build_routine :: recommendation where
  "rec_build_routine =
     \<lparr>rtype = ''stability'', title = ''Build Routine'',
      description = ''Emotions seem fluctuating - establish grounding'',
      action = ''Create a simple 5-minute daily routine'', duration = ''5 min'',
      icon = [CHR 0xE2, CHR 0x9A, CHR 0x96, CHR 0xEF, CHR 0xB8, CHR 0x8F]\<rparr>"

definition rec_basic_self_care :: recommendation where
  "rec_basic_self_care =
     \<lparr>rtype = ''wellness'', title = ''Basic Self-Care'',
      description = ''Focus on fundamental needs first'',
      action = ''Ensure you'' @ [CHR 0x27] @ ''re hydrated and have eaten'',
      duration = ''5 min'',
      icon = [CHR 0xF0, CHR 0x9F, CHR 0x92, CHR 0x9A]\<rparr>"

text \<open>
  The branch ladder of \<^verbatim>\<open>generate_intelligent_recommendations\<close> (lines 145 to 292):
  \<^verbatim>\<open>recommendations\<close> starts empty and is assigned by the first branch whose emotion
  matches; the happy and the sad branch assign only above their confidence threshold.
\<close>

definition base_recommendations :: "string \<Rightarrow> real \<Rightarrow> recommendation list" where
  "base_recommendations dominant_emotion confidence =
     (if dominant_emotion = ''happy'' then
        (if confidence > 0.7 then [rec_keep_positive_energy, rec_channel_energy] else [])
      else if dominant_emotion = ''sad'' then
        (if confidence > 0.6
         then [rec_gentle_self_care, rec_reach_out, rec_mindful_moment] else [])
      else if dominant_emotion = ''angry'' then
        [rec_physical_release, rec_cool_down, rec_express_safely]
      else if dominant_emotion = ''surprised'' then
        [rec_process_moment, rec_adapt_and_learn]
      else if dominant_emotion = ''fearful'' then
        [rec_grounding_exercise, rec_create_safety, rec_calm_breathing]
      else [rec_emotional_check_in, rec_gentle_activity])"

text \<open>
  Lines 294 to 315: \<^verbatim>\<open>insert(0, item)\<close> puts the item in front; the stability test runs
  first, the wellness test second, and the result is \<^verbatim>\<open>recommendations[:4]\<close>.
\<close>

definition generate_intelligent_recommendations ::
  "string \<Rightarrow> real \<Rightarrow> real \<Rightarrow> real \<Rightarrow> recommendation list" where
  "generate_intelligent_recommendations dominant_emotion confidence wellness_score
       stability_score =
     (let recommendations = base_recommendations dominant_emotion confidence;
          recommendations =
            (if stability_score < 0.4 then rec_build_routine # recommendations
             else recommendations);
          recommendations =
            (if wellness_score < 0.3 then rec_basic_self_care # recommendations
             else recommendations)
      in py_slice_to recommendations 4)"

section \<open>Emotion analyzer (routes/ml.py, class EmotionAnalyzer)\<close>

text \<open>The two attributes set by \<^verbatim>\<open>__init__\<close>.\<close>

definition emotion_weights :: "(string \<times> real) list" where
  "emotion_weights =
     [(''happy'', 1.0), (''sad'', -0.8), (''angry'', -1.0), (''surprised'', 0.3),
      (''fearful'', -0.7), (''disgusted'', -0.6), (''neutral'', 0.0)]"

definition stability_threshold :: real where
  "stability_threshold = 0.3"

text \<open>
  NumPy's \<^verbatim>\<open>mean\<close> and \<^verbatim>\<open>var\<close> (population variance, the mean of the squared deviations
  from the mean). On an empty list NumPy gives nan; both callers below pass a non-empty
  list (\<^verbatim>\<open>scores\<close> is tested first, and the variance table has seven entries).
\<close>

definition np_mean :: "real list \<Rightarrow> real" where
  "np_mean xs = sum_list xs / real (length xs)"

definition np_var :: "real list \<Rightarrow> real" where
  "np_var xs = np_mean (map (\<lambda>x. (x - np_mean xs)\<^sup>2) xs)"

text \<open>\<^verbatim>\<open>d.get(k, default)\<close> and \<^verbatim>\<open>d[k] = v\<close> on an insertion-ordered dictionary.\<close>

definition dict_get :: "('k \<times> 'v) list \<Rightarrow> 'k \<Rightarrow> 'v \<Rightarrow> 'v" where
  "dict_get d k dflt = (case map_of d k of Some v \<Rightarrow> v | None \<Rightarrow> dflt)"

fun dict_set :: "('k \<times> 'v) list \<Rightarrow> 'k \<Rightarrow> 'v \<Rightarrow> ('k \<times> 'v) list" where
  "dict_set [] k v = [(k, v)]"
| "dict_set ((k', v') # d) k v =
     (if k' = k then (k', v) # d else (k', v') # dict_set d k v)"

subsection \<open>calculate_wellness_score\<close>

text \<open>
  The inner loop over \<^verbatim>\<open>record.items()\<close> updates the pair
  \<^verbatim>\<open>(record_score, total_intensity)\<close> for the emotions that have a weight.
\<close>

definition wellness_item :: "string \<times> real \<Rightarrow> real \<times> real \<Rightarrow> real \<times> real" where
  "wellness_item item acc =
     (case (item, acc) of ((emotion, value), (record_score, total_intensity)) \<Rightarrow>
        (case map_of emotion_weights emotion of
           Some weight \<Rightarrow> (record_score + value * weight, total_intensity + value)
         | None \<Rightarrow> (record_score, total_intensity)))"

text \<open>The body of the outer loop: one record, appending to \<^verbatim>\<open>scores\<close>.\<close>

definition wellness_record :: "emotions \<Rightarrow> real list \<Rightarrow> real list" where
  "wellness_record record scores =
     (case fold wellness_item record (0, 0) of (record_score, total_intensity) \<Rightarrow>
        if total_intensity > 0
        then (let normalized_score = (record_score + total_intensity) / (2 * total_intensity)
              in scores @ [max 0 (min 1 normalized_score)])
        else scores)"

definition calculate_wellness_score :: "emotions list \<Rightarrow> real" where
  "calculate_wellness_score emotions_history =
     (if emotions_history = [] then 0.5
      else (let scores = fold wellness_record (py_slice_from emotions_history (-10)) []
            in if scores \<noteq> [] then np_mean scores else 0.5))"

subsection \<open>calculate_stability_score\<close>

text \<open>The body of the loop over \<^verbatim>\<open>self.emotion_weights.keys()\<close>.\<close>

definition stability_emotion ::
  "emotions list \<Rightarrow> string \<Rightarrow> (string \<times> real) list \<Rightarrow> (string \<times> real) list" where
  "stability_emotion recent_records emotion emotion_variances =
     (let values = map (\<lambda>record. dict_get record emotion 0) recent_records
      in if length values > 1 then dict_set emotion_variances emotion (np_var values)
         else emotion_variances)"

definition calculate_stability_score :: "emotions list \<Rightarrow> real" where
  "calculate_stability_score emotions_history =
     (if length emotions_history < 3 then 0.7
      else (let recent_records = py_slice_from emotions_history (-5);
                emotion_variances =
                  fold (stability_emotion recent_records) (map fst emotion_weights) [];
                avg_variance = np_mean (map snd emotion_variances);
                stability = max 0.1 (1.0 - avg_variance / stability_threshold)
            in min 1.0 stability))"

subsection \<open>The history read by predict_mood\<close>

text \<open>
  \<^verbatim>\<open>get_user_emotion_history\<close> (lines 118 to 140) queries the records of the user since the
  cutoff, ordered by timestamp, and reads \<^verbatim>\<open>record.emotions\<close> of each. The class
  \<^verbatim>\<open>EmotionRecord\<close> declares \<^verbatim>\<open>id\<close>, \<^verbatim>\<open>user_id\<close>, \<^verbatim>\<open>session_id\<close>, \<^verbatim>\<open>emotions_json\<close>,
  \<^verbatim>\<open>confidence_scores\<close> and \<^verbatim>\<open>timestamp\<close>, and no attribute \<^verbatim>\<open>emotions\<close>: the read
  raises \<^verbatim>\<open>AttributeError\<close>. The whole body stands in a \<^verbatim>\<open>try\<close> whose handler logs the
  error and returns the empty list. The embedding starts from the records the query
  returns.
\<close>

definition record_emotions :: "emotion_record \<Rightarrow> py_error + emotions" where
  "record_emotions record = Inl (AttributeError ''emotions'')"

text \<open>
  The body of the loop: a record whose dictionary is not empty is appended (a stored
  dictionary is not a string, so the \<^verbatim>\<open>json.loads\<close> branch is not taken).
\<close>

definition history_record ::
  "emotion_record \<Rightarrow> emotions list \<Rightarrow> py_error + emotions list" where
  "history_record record emotions_list =
     (case record_emotions record of
        Inl e \<Rightarrow> Inl e
      | Inr emotions \<Rightarrow>
          Inr (if emotions \<noteq> [] then emotions_list @ [emotions] else emotions_list))"

definition get_user_emotion_history :: "emotion_record list \<Rightarrow> emotions list" where
  "get_user_emotion_history records =
     (case fold_result history_record records [] of
        Inl e \<Rightarrow> []
      | Inr emotions_list \<Rightarrow> emotions_list)"

subsection \<open>The trend of predict_mood\<close>

text \<open>Lines 354 to 366, on the history the route holds.\<close>

definition determine_trend :: "emotions list \<Rightarrow> string" where
  "determine_trend emotions_history =
     (if length emotions_history \<ge> 5 then
        (let recent_wellness =
               calculate_wellness_score (py_slice_from emotions_history (-3));
             earlier_wellness =
               calculate_wellness_score (py_slice emotions_history (-6) (-3))
         in if recent_wellness > earlier_wellness + 0.1 then ''improving''
            else if recent_wellness < earlier_wellness - 0.1 then ''declining''
            else ''stable'')
      else ''stable'')"

text \<open>
  The trend in the answer of \<^verbatim>\<open>predict_mood\<close>, from the stored records of the user:
  the route reads the history, answers an empty one at once with trend stable (lines
  327 to 347), and determines the trend otherwise.
\<close>

definition predict_mood_trend :: "emotion_record list \<Rightarrow> string" where
  "predict_mood_trend records =
     (let emotions_history = get_user_emotion_history records
      in if emotions_history = [] then ''stable''
         else determine_trend emotions_history)"

subsection \<open>The scores as the specification words them\<close>

text \<open>
  These definitions follow the specification, not the code; the properties below show
  that the code computes them.
\<close>

definition canonical_emotions :: "string list" where
  "canonical_emotions =
     [''happy'', ''sad'', ''angry'', ''surprised'', ''fearful'', ''disgusted'', ''neutral'']"

definition clamp :: "real \<Rightarrow> real \<Rightarrow> real \<Rightarrow> real" where
  "clamp x lo hi = max lo (min hi x)"

definition most_recent :: "nat \<Rightarrow> 'a list \<Rightarrow> 'a list" where
  "most_recent n xs = drop (length xs - n) xs"

definition weighted_emotions :: "emotions \<Rightarrow> emotions" where
  "weighted_emotions record = filter (\<lambda>(e, v). e \<in> set (map fst emotion_weights)) record"

definition weighted_sum :: "emotions \<Rightarrow> real" where
  "weighted_sum record =
     (\<Sum>(e, v)\<leftarrow>weighted_emotions record. v * dict_get emotion_weights e 0)"

definition total_intensity :: "emotions \<Rightarrow> real" where
  "total_intensity record = (\<Sum>(e, v)\<leftarrow>weighted_emotions record. v)"

definition wellness_sample :: "emotions \<Rightarrow> real" where
  "wellness_sample record =
     clamp ((weighted_sum record + total_intensity record) / (2 * total_intensity record))
       0 1"

definition average_variance :: "emotions list \<Rightarrow> real" where
  "average_variance emotions_history =
     np_mean (map (\<lambda>e. np_var (map (\<lambda>r. dict_get r e 0) (most_recent 5 emotions_history)))
                canonical_emotions)"

section \<open>Machine arithmetic\<close>

text \<open>
  The detection of peaks compares a value with a product of floats and stores rounded
  quotients, and the last binary digit of a product or a quotient decides some of these
  answers. Its arithmetic is therefore a parameter of the embedding: the float a decimal
  literal denotes, the product and the quotient of two floats, the builtin \<^verbatim>\<open>sum\<close> of a
  list and the builtin \<^verbatim>\<open>round\<close>. A float is the real number it denotes, so the
  comparisons are those of the reals, as they are in the interpreter. What is proved of
  the detection is proved for every arithmetic, that of the interpreter among them.
\<close>

record arithmetic =
  literal :: "real \<Rightarrow> real"
  fmul :: "real \<Rightarrow> real \<Rightarrow> real"
  fdiv :: "real \<Rightarrow> real \<Rightarrow> real"
  fsum :: "real list \<Rightarrow> real"
  fround :: "real \<Rightarrow> nat \<Rightarrow> real"

text \<open>
  Rounding without binary error, as Python's \<^verbatim>\<open>round(x, ndigits)\<close> does it on the exact
  value: to the nearest multiple of \<open>10 ^ - ndigits\<close>, a tie going to the even one.
\<close>

definition round_half_even :: "real \<Rightarrow> int" where
  "round_half_even y =
     (let f = \<lfloor>y\<rfloor>; d = y - of_int f
      in if d < 1 / 2 then f else if d > 1 / 2 then f + 1
         else if even f then f else f + 1)"

definition py_round :: "real \<Rightarrow> nat \<Rightarrow> real" where
  "py_round x ndigits = of_int (round_half_even (x * 10 ^ ndigits)) / 10 ^ ndigits"

text \<open>The arithmetic without rounding error, in which the examples are evaluated.\<close>

definition exact_arithmetic :: arithmetic where
  "exact_arithmetic =
     \<lparr>literal = (\<lambda>x. x), fmul = (\<lambda>x y. x * y), fdiv = (\<lambda>x y. x / y),
      fsum = sum_list, fround = py_round\<rparr>"

text \<open>
  Double precision, as far as the examples need it: a result is rounded to the nearest
  number with 53 significant bits, a tie going to the even one. Overflow and subnormal
  results are not modelled. The sum adds from the left.
\<close>

definition round_to_double :: "real \<Rightarrow> real" where
  "round_to_double x =
     (if x = 0 then 0
      else (let e = \<lfloor>log 2 \<bar>x\<bar>\<rfloor> - 52
            in of_int (round_half_even (x / 2 powr of_int e)) * 2 powr of_int e))"

definition double_arithmetic :: arithmetic where
  "double_arithmetic =
     \<lparr>literal = round_to_double,
      fmul = (\<lambda>x y. round_to_double (x * y)),
      fdiv = (\<lambda>x y. round_to_double (x / y)),
      fsum = (\<lambda>xs. foldl (\<lambda>s x. round_to_double (s + x)) 0 xs),
      fround = (\<lambda>x n. round_to_double (py_round x n))\<rparr>"

section \<open>Peak and anomaly detection (routes/analytics.py, get_emotion_peaks)\<close>

text \<open>
  The route reads the records of the user ordered by timestamp; the embedding starts
  from that record sequence. A failing dictionary lookup raises \<^verbatim>\<open>KeyError\<close>, which the
  route turns into an error response.
\<close>

record peak =
  peak_timestamp :: nat
  peak_emotion :: string
  peak_value :: real
  peak_baseline :: real
  intensity :: real

record anomaly =
  anomaly_timestamp :: nat
  anomaly_emotion :: string
  anomaly_value :: real
  anomaly_type :: string

record peaks_response =
  resp_peaks :: "peak list"
  resp_anomalies :: "anomaly list"
  resp_baselines :: "(string \<times> real) list option"

text \<open>
  \<^verbatim>\<open>emotion_baselines[emotion].append(value)\<close> on a \<^verbatim>\<open>defaultdict(list)\<close>: a new key is
  added at the end with a one-element list.
\<close>

fun defaultdict_append ::
  "(string \<times> real list) list \<Rightarrow> string \<Rightarrow> real \<Rightarrow> (string \<times> real list) list" where
  "defaultdict_append [] k v = [(k, [v])]"
| "defaultdict_append ((k', vs) # d) k v =
     (if k' = k then (k', vs @ [v]) # d else (k', vs) # defaultdict_append d k v)"

definition baseline_item ::
  "string \<times> real \<Rightarrow> (string \<times> real list) list \<Rightarrow> (string \<times> real list) list" where
  "baseline_item item emotion_baselines =
     (case item of (emotion, value) \<Rightarrow> defaultdict_append emotion_baselines emotion value)"

definition collect_baselines :: "emotion_record list \<Rightarrow> (string \<times> real list) list" where
  "collect_baselines records =
     fold (\<lambda>record emotion_baselines.
             fold baseline_item (emotions_json record) emotion_baselines) records []"

text \<open>
  The loop \<^verbatim>\<open>baselines[emotion] = sum(values) / len(values)\<close> over the items of
  \<^verbatim>\<open>emotion_baselines\<close>, whose keys are distinct.
\<close>

definition compute_baselines ::
  "arithmetic \<Rightarrow> emotion_record list \<Rightarrow> (string \<times> real) list" where
  "compute_baselines A records =
     map (\<lambda>(emotion, values). (emotion, fdiv A (fsum A values) (real (length values))))
       (collect_baselines records)"

definition threshold_multiplier :: "arithmetic \<Rightarrow> real" where
  "threshold_multiplier A = literal A 1.5"

text \<open>
  The body of the inner loop (lines 432 to 449): the lookup \<^verbatim>\<open>baselines[emotion]\<close> comes
  first, then the peak test and the anomaly test, each appending to its list.
\<close>

definition peaks_item ::
  "arithmetic \<Rightarrow> (string \<times> real) list \<Rightarrow> nat \<Rightarrow> string \<times> real
     \<Rightarrow> peak list \<times> anomaly list \<Rightarrow> py_error + peak list \<times> anomaly list" where
  "peaks_item A baselines ts item acc =
     (case (item, acc) of ((emotion, value), (peaks, anomalies)) \<Rightarrow>
        (case map_of baselines emotion of
           None \<Rightarrow> Inl (KeyError emotion)
         | Some b \<Rightarrow>
             Inr (if value > fmul A b (threshold_multiplier A) \<and> value > literal A 0.7
                  then peaks @
                    [\<lparr>peak_timestamp = ts, peak_emotion = emotion,
                      peak_value = fround A value 3, peak_baseline = fround A b 3,
                      intensity = (if b > 0 then fround A (fdiv A value b) 2 else 1)\<rparr>]
                  else peaks,
                  if value > literal A 0.9
                  then anomalies @
                    [\<lparr>anomaly_timestamp = ts, anomaly_emotion = emotion,
                      anomaly_value = fround A value 3,
                      anomaly_type = ''high_intensity''\<rparr>]
                  else anomalies)))"

definition find_peaks ::
  "arithmetic \<Rightarrow> emotion_record list \<Rightarrow> py_error + peak list \<times> anomaly list" where
  "find_peaks A records =
     (let baselines = compute_baselines A records
      in fold_result
           (\<lambda>record. fold_result (peaks_item A baselines (timestamp record))
                        (emotions_json record))
           records ([], []))"

text \<open>
  The route: no record, an early answer without baselines; otherwise a stable sort of
  the peaks by decreasing intensity (\<^verbatim>\<open>sort(key=..., reverse=True)\<close>), then
  \<^verbatim>\<open>peaks[:20]\<close> and \<^verbatim>\<open>anomalies[-10:]\<close>.
\<close>

definition get_emotion_peaks ::
  "arithmetic \<Rightarrow> emotion_record list \<Rightarrow> py_error + peaks_response" where
  "get_emotion_peaks A records =
     (if records = [] then Inr \<lparr>resp_peaks = [], resp_anomalies = [], resp_baselines = None\<rparr>
      else (case find_peaks A records of
              Inl e \<Rightarrow> Inl e
            | Inr (found_peaks, found_anomalies) \<Rightarrow>
                Inr \<lparr>resp_peaks = py_slice_to (sort_key (\<lambda>x. - intensity x) found_peaks) 20,
                     resp_anomalies = py_slice_from found_anomalies (-10),
                     resp_baselines = Some (map (\<lambda>(k, v). (k, fround A v 3))
                                         (compute_baselines A records))\<rparr>))"

subsection \<open>Peaks and anomalies as the specification words them\<close>

text \<open>
  Every (record, emotion, value) pair of the sequence, in source order; the values of
  one emotion over the whole sequence and their mean, the baseline; the two flags; the
  entry built for a flagged pair. The products, quotients and roundings are those of
  the arithmetic.
\<close>

definition observations :: "emotion_record list \<Rightarrow> (nat \<times> string \<times> real) list" where
  "observations records =
     concat (map (\<lambda>r. map (\<lambda>(e, v). (timestamp r, e, v)) (emotions_json r)) records)"

definition emotion_values :: "string \<Rightarrow> emotion_record list \<Rightarrow> real list" where
  "emotion_values e records =
     map snd (filter (\<lambda>(e', v). e' = e) (concat (map emotions_json records)))"

definition baseline :: "arithmetic \<Rightarrow> emotion_record list \<Rightarrow> string \<Rightarrow> real" where
  "baseline A records e =
     fdiv A (fsum A (emotion_values e records)) (real (length (emotion_values e records)))"

definition is_peak ::
  "arithmetic \<Rightarrow> emotion_record list \<Rightarrow> nat \<times> string \<times> real \<Rightarrow> bool" where
  "is_peak A records obs =
     (case obs of (ts, e, v) \<Rightarrow>
        v > fmul A (baseline A records e) (literal A 1.5) \<and> v > literal A 0.7)"

definition is_anomaly :: "arithmetic \<Rightarrow> nat \<times> string \<times> real \<Rightarrow> bool" where
  "is_anomaly A obs = (case obs of (ts, e, v) \<Rightarrow> v > literal A 0.9)"

definition peak_entry ::
  "arithmetic \<Rightarrow> emotion_record list \<Rightarrow> nat \<times> string \<times> real \<Rightarrow> peak" where
  "peak_entry A records obs =
     (case obs of (ts, e, v) \<Rightarrow>
        \<lparr>peak_timestamp = ts, peak_emotion = e, peak_value = fround A v 3,
         peak_baseline = fround A (baseline A records e) 3,
         intensity = (if baseline A records e > 0
                      then fround A (fdiv A v (baseline A records e)) 2 else 1)\<rparr>)"

definition anomaly_entry :: "arithmetic \<Rightarrow> nat \<times> string \<times> real \<Rightarrow> anomaly" where
  "anomaly_entry A obs =
     (case obs of (ts, e, v) \<Rightarrow>
        \<lparr>anomaly_timestamp = ts, anomaly_emotion = e, anomaly_value = fround A v 3,
         anomaly_type = ''high_intensity''\<rparr>)"

definition flagged_peaks :: "arithmetic \<Rightarrow> emotion_record list \<Rightarrow> peak list" where
  "flagged_peaks A records =
     map (peak_entry A records) (filter (is_peak A records) (observations records))"

definition flagged_anomalies :: "arithmetic \<Rightarrow> emotion_record list \<Rightarrow> anomaly list" where
  "flagged_anomalies A records =
     map (anomaly_entry A) (filter (is_anomaly A) (observations records))"

text \<open>The values collected under a key, none when the key is absent.\<close>

definition values_in :: "(string \<times> real list) list \<Rightarrow> string \<Rightarrow> real list" where
  "values_in d e = (case map_of d e of None \<Rightarrow> [] | Some vs \<Rightarrow> vs)"

section \<open>Stress levels (routes/analytics.py, get_pattern_analysis)\<close>

text \<open>
  Python's \<^verbatim>\<open>max(items, key=...)\<close> keeps the first item whose key is maximal: the
  running best is replaced only by a strictly greater key.
\<close>

fun py_max_key :: "('a \<Rightarrow> real) \<Rightarrow> 'a \<Rightarrow> 'a list \<Rightarrow> 'a" where
  "py_max_key key best [] = best"
| "py_max_key key best (x # xs) =
     py_max_key key (if key x > key best then x else best) xs"

text \<open>
  Line 687: the item of greatest value of \<^verbatim>\<open>record.emotions_json or {}\<close>, and
  \<^verbatim>\<open>('neutral', 0)\<close> for an empty dictionary.
\<close>

definition max_emotion :: "emotions \<Rightarrow> string \<times> real" where
  "max_emotion emotions =
     (case emotions of [] \<Rightarrow> (''neutral'', 0) | item # rest \<Rightarrow> py_max_key snd item rest)"

definition stress_emotions :: "string list" where
  "stress_emotions = [''angry'', ''fearful'', ''disgusted'', ''sad'']"

definition neutral_emotions :: "string list" where
  "neutral_emotions = [''neutral'', ''surprised'']"

definition positive_emotions :: "string list" where
  "positive_emotions = [''happy'']"

text \<open>The body of the counting loop (lines 685 to 695), on the three counters.\<close>

definition stress_record :: "emotion_record \<Rightarrow> nat \<times> nat \<times> nat \<Rightarrow> nat \<times> nat \<times> nat" where
  "stress_record record counts =
     (case counts of (high_stress_count, medium_stress_count, low_stress_count) \<Rightarrow>
        (let emotion_name = fst (max_emotion (emotions_json record))
         in if emotion_name \<in> set stress_emotions
            then (high_stress_count + 1, medium_stress_count, low_stress_count)
            else if emotion_name \<in> set positive_emotions
            then (high_stress_count, medium_stress_count, low_stress_count + 1)
            else (high_stress_count, medium_stress_count + 1, low_stress_count)))"

record stress_levels =
  low :: real
  medium :: real
  high :: real

text \<open>
  The \<^verbatim>\<open>stressLevels\<close> entry of the answer of \<^verbatim>\<open>get_pattern_analysis\<close>: the early answer
  for no record (lines 658 to 663), otherwise the three guarded percentages.
\<close>

definition pattern_stress_levels :: "emotion_record list \<Rightarrow> stress_levels" where
  "pattern_stress_levels records =
     (if records = [] then \<lparr>low = 33.3, medium = 33.3, high = 33.3\<rparr>
      else (let total_records = length records
            in case fold stress_record records (0, 0, 0) of
                 (high_stress_count, medium_stress_count, low_stress_count) \<Rightarrow>
                   \<lparr>low = (if total_records > 0
                           then real low_stress_count / real total_records * 100 else 33.3),
                    medium = (if total_records > 0
                           then real medium_stress_count / real total_records * 100 else 33.3),
                    high = (if total_records > 0
                           then real high_stress_count / real total_records * 100 else 33.3)\<rparr>))"

subsection \<open>The stress buckets as the specification words them\<close>

datatype bucket = High | Medium | Low

definition bucket_of :: "string \<Rightarrow> bucket" where
  "bucket_of e =
     (if e \<in> {''angry'', ''fearful'', ''disgusted'', ''sad''} then High
      else if e = ''happy'' then Low else Medium)"

definition dominant_emotion :: "emotion_record \<Rightarrow> string" where
  "dominant_emotion r = fst (max_emotion (emotions_json r))"

definition bucket_count :: "bucket \<Rightarrow> emotion_record list \<Rightarrow> nat" where
  "bucket_count b records = length (filter (\<lambda>r. bucket_of (dominant_emotion r) = b) records)"

section \<open>Validation of emotion data (utils/validators.py)\<close>

text \<open>
  The argument of \<^verbatim>\<open>validate_emotion_data\<close> is whatever the request body holds under the
  key: any JSON value, as \<^verbatim>\<open>request.get_json()\<close> decodes it. A decoded object is a
  dictionary, so its keys are distinct; a lookup reads the entry of the key.
\<close>

datatype json =
  JNull | JBool bool | JInt int | JFloat real | JString string
  | JArray "json list" | JObject "(string \<times> json) list"

definition required_emotions :: "string list" where
  "required_emotions =
     [''happy'', ''sad'', ''angry'', ''fearful'', ''disgusted'', ''surprised'', ''neutral'']"

text \<open>
  \<^verbatim>\<open>isinstance(value, (int, float))\<close>. In Python \<^verbatim>\<open>bool\<close> is a subclass of \<^verbatim>\<open>int\<close>, so the
  test holds of \<^verbatim>\<open>True\<close> and \<^verbatim>\<open>False\<close>, which compare as 1 and 0.
\<close>

fun isinstance_int_float :: "json \<Rightarrow> bool" where
  "isinstance_int_float (JBool b) = True"
| "isinstance_int_float (JInt i) = True"
| "isinstance_int_float (JFloat x) = True"
| "isinstance_int_float v = False"

fun number_value :: "json \<Rightarrow> real" where
  "number_value (JBool b) = (if b then 1 else 0)"
| "number_value (JInt i) = of_int i"
| "number_value (JFloat x) = x"
| "number_value v = 0"

text \<open>The loop over \<^verbatim>\<open>required_emotions\<close>, with its two early returns.\<close>

fun validate_required :: "(string \<times> json) list \<Rightarrow> string list \<Rightarrow> bool" where
  "validate_required emotions [] = True"
| "validate_required emotions (emotion # rest) =
     (case map_of emotions emotion of
        None \<Rightarrow> False
      | Some v \<Rightarrow>
          if \<not> isinstance_int_float v \<or> \<not> (0 \<le> number_value v \<and> number_value v \<le> 1)
          then False
          else validate_required emotions rest)"

definition validate_emotion_data :: "json \<Rightarrow> bool" where
  "validate_emotion_data emotions =
     (case emotions of
        JObject d \<Rightarrow> validate_required d required_emotions
      | _ \<Rightarrow> False)"

subsection \<open>Validity as the specification words it\<close>

text \<open>
  A numeric value in [0, 1] is an integer or a float in the interval; a mapping is valid
  when each of the seven canonical keys is present with such a value.
\<close>

fun numeric_in_unit_interval :: "json \<Rightarrow> bool" where
  "numeric_in_unit_interval (JInt i) = (0 \<le> i \<and> i \<le> 1)"
| "numeric_in_unit_interval (JFloat x) = (0 \<le> x \<and> x \<le> 1)"
| "numeric_in_unit_interval v = False"

definition valid_emotion_vector :: "json \<Rightarrow> bool" where
  "valid_emotion_vector j =
     (case j of
        JObject d \<Rightarrow>
          list_all (\<lambda>e. case map_of d e of
                          None \<Rightarrow> False
                        | Some v \<Rightarrow> numeric_in_unit_interval v) canonical_emotions
      | _ \<Rightarrow> False)"

section \<open>Properties: recommendation engine\<close>

lemma py_slice_to_nat: "py_slice_to xs (int n) = take n xs"
  by (simp add: py_slice_to_def py_bound_def min_def)

lemma py_slice_to_4: "py_slice_to xs 4 = take 4 xs"
  using py_slice_to_nat [of xs 4] by simp

lemma base_recommendations_length: "length (base_recommendations d c) \<le> 3"
  by (simp add: base_recommendations_def)

lemma generate_as_composition:
  "generate_intelligent_recommendations d c w s =
     take 4 ((if w < 0.3 then [rec_basic_self_care] else []) @
             (if s < 0.4 then [rec_build_routine] else []) @
             base_recommendations d c)"
  by (simp add: generate_intelligent_recommendations_def py_slice_to_4)

text \<open>With neither override the result is the base list: it has at most three items.\<close>

lemma generate_without_override:
  assumes "w \<ge> 0.3" and "s \<ge> 0.4"
  shows "generate_intelligent_recommendations d c w s = base_recommendations d c"
proof -
  have "length (base_recommendations d c) \<le> 4"
    using base_recommendations_length [of d c] by simp
  with assms show ?thesis
    by (simp add: generate_as_composition)
qed

text \<open>
  C1. For every dominant emotion, confidence, wellness and stability, the result is the
  base list of the emotion with the stability item put in front when stability is below
  0.4, then the wellness item put in front when wellness is below 0.3 (so the wellness
  item comes first and the stability item second when both are present), cut to its
  first four entries: it never has more than four entries and base items beyond that
  are dropped. For wellness 0.2, stability 0.2, dominant emotion sad and confidence 0.8
  the result is the wellness item, the stability item and the first two sad items.
\<close>

theorem C1_prepend_then_truncate:
  "generate_intelligent_recommendations d c w s =
     take 4 ((if w < 0.3 then [rec_basic_self_care] else []) @
             (if s < 0.4 then [rec_build_routine] else []) @
             base_recommendations d c)
   \<and> length (generate_intelligent_recommendations d c w s) \<le> 4
   \<and> generate_intelligent_recommendations ''sad'' 0.8 0.2 0.2 =
       [rec_basic_self_care, rec_build_routine, rec_gentle_self_care, rec_reach_out]"
proof (intro conjI)
  show "generate_intelligent_recommendations d c w s =
     take 4 ((if w < 0.3 then [rec_basic_self_care] else []) @
             (if s < 0.4 then [rec_build_routine] else []) @
             base_recommendations d c)"
    by (rule generate_as_composition)
  show "length (generate_intelligent_recommendations d c w s) \<le> 4"
    by (simp add: generate_as_composition)
  show "generate_intelligent_recommendations ''sad'' 0.8 0.2 0.2 =
       [rec_basic_self_care, rec_build_routine, rec_gentle_self_care, rec_reach_out]"
    by (simp add: generate_as_composition base_recommendations_def)
qed

text \<open>
  An instance where both overrides fire on a three-item base list: the third item of
  the angry list is dropped.
\<close>

theorem C1_prepend_then_truncate_witness:
  "generate_intelligent_recommendations ''angry'' 0.5 0.2 0.2 =
     [rec_basic_self_care, rec_build_routine, rec_physical_release, rec_cool_down]"
  using C1_prepend_then_truncate [of "''angry''" "0.5" "0.2" "0.2"]
  by (simp add: base_recommendations_def)

text \<open>
  C8. With dominant emotion happy and confidence at most 0.7 the base rule produces no
  recommendation, so the engine returns only the items the overrides prepend, and the
  empty list with wellness at least 0.3 and stability at least 0.4. With confidence
  above 0.7 the happy branch produces its two-item base list, which the engine returns
  after the items the overrides prepend, and alone when there is none.
\<close>

theorem C8_happy_confidence_gate:
  "(c \<le> 0.7 \<longrightarrow> base_recommendations ''happy'' c = [])
   \<and> (c \<le> 0.7 \<and> w \<ge> 0.3 \<and> s \<ge> 0.4 \<longrightarrow>
        generate_intelligent_recommendations ''happy'' c w s = [])
   \<and> (c > 0.7 \<longrightarrow>
        base_recommendations ''happy'' c = [rec_keep_positive_energy, rec_channel_energy]
        \<and> base_recommendations ''happy'' c \<noteq> [])
   \<and> (c \<le> 0.7 \<longrightarrow>
        generate_intelligent_recommendations ''happy'' c w s =
          (if w < 0.3 then [rec_basic_self_care] else []) @
          (if s < 0.4 then [rec_build_routine] else []))
   \<and> (c > 0.7 \<longrightarrow>
        generate_intelligent_recommendations ''happy'' c w s =
          (if w < 0.3 then [rec_basic_self_care] else []) @
          (if s < 0.4 then [rec_build_routine] else []) @
          [rec_keep_positive_energy, rec_channel_energy])
   \<and> (c > 0.7 \<and> w \<ge> 0.3 \<and> s \<ge> 0.4 \<longrightarrow>
        generate_intelligent_recommendations ''happy'' c w s =
          [rec_keep_positive_energy, rec_channel_energy])"
proof (intro conjI impI)
  assume "c \<le> 0.7"
  then show "base_recommendations ''happy'' c = []"
    by (simp add: base_recommendations_def)
next
  assume h: "c \<le> 0.7 \<and> w \<ge> 0.3 \<and> s \<ge> 0.4"
  then have "generate_intelligent_recommendations ''happy'' c w s =
             base_recommendations ''happy'' c"
    by (simp add: generate_without_override)
  with h show "generate_intelligent_recommendations ''happy'' c w s = []"
    by (simp add: base_recommendations_def)
next
  assume "c > 0.7"
  then show "base_recommendations ''happy'' c =
             [rec_keep_positive_energy, rec_channel_energy]"
    by (simp add: base_recommendations_def)
next
  assume "c > 0.7"
  then show "base_recommendations ''happy'' c \<noteq> []"
    by (simp add: base_recommendations_def)
next
  assume "c \<le> 0.7"
  then have "base_recommendations ''happy'' c = []"
    by (simp add: base_recommendations_def)
  then show "generate_intelligent_recommendations ''happy'' c w s =
          (if w < 0.3 then [rec_basic_self_care] else []) @
          (if s < 0.4 then [rec_build_routine] else [])"
    by (simp add: generate_as_composition)
next
  assume "c > 0.7"
  then have "base_recommendations ''happy'' c =
             [rec_keep_positive_energy, rec_channel_energy]"
    by (simp add: base_recommendations_def)
  then show "generate_intelligent_recommendations ''happy'' c w s =
          (if w < 0.3 then [rec_basic_self_care] else []) @
          (if s < 0.4 then [rec_build_routine] else []) @
          [rec_keep_positive_energy, rec_channel_energy]"
    by (simp add: generate_as_composition)
next
  assume h: "c > 0.7 \<and> w \<ge> 0.3 \<and> s \<ge> 0.4"
  then have "generate_intelligent_recommendations ''happy'' c w s =
             base_recommendations ''happy'' c"
    by (simp add: generate_without_override)
  with h show "generate_intelligent_recommendations ''happy'' c w s =
             [rec_keep_positive_energy, rec_channel_energy]"
    by (simp add: base_recommendations_def)
qed

text \<open>
  At confidence 0.7 and 0.5 the engine returns the empty list; at 0.71 it returns the
  two happy items, after the wellness and the stability item when both overrides fire.
\<close>

theorem C8_happy_confidence_gate_witness:
  "base_recommendations ''happy'' 0.7 = []
   \<and> generate_intelligent_recommendations ''happy'' 0.7 0.3 0.4 = []
   \<and> generate_intelligent_recommendations ''happy'' 0.5 0.9 0.9 = []
   \<and> base_recommendations ''happy'' 0.71 = [rec_keep_positive_energy, rec_channel_energy]
   \<and> generate_intelligent_recommendations ''happy'' 0.71 0.3 0.4 =
        [rec_keep_positive_energy, rec_channel_energy]
   \<and> generate_intelligent_recommendations ''happy'' 0.71 0.2 0.2 =
        [rec_basic_self_care, rec_build_routine, rec_keep_positive_energy,
         rec_channel_energy]
   \<and> generate_intelligent_recommendations ''happy'' 0.5 0.2 0.9 = [rec_basic_self_care]"
  using C8_happy_confidence_gate [of "0.7" "0.3" "0.4"]
    C8_happy_confidence_gate [of "0.5" "0.9" "0.9"]
    C8_happy_confidence_gate [of "0.71" "0.3" "0.4"]
    C8_happy_confidence_gate [of "0.71" "0.2" "0.2"]
    C8_happy_confidence_gate [of "0.5" "0.2" "0.9"]
  by simp

text \<open>
  C10. The sad rule is gated by a confidence threshold of 0.6: with dominant emotion
  sad, confidence at most 0.6, wellness at least 0.3 and stability at least 0.4 the
  engine returns the empty list, while confidence above 0.6 yields the three-item sad
  base list.
\<close>

theorem C10_sad_confidence_gate:
  "(c \<le> 0.6 \<and> w \<ge> 0.3 \<and> s \<ge> 0.4 \<longrightarrow>
        generate_intelligent_recommendations ''sad'' c w s = [])
   \<and> (c > 0.6 \<longrightarrow>
        base_recommendations ''sad'' c =
          [rec_gentle_self_care, rec_reach_out, rec_mindful_moment]
        \<and> length (base_recommendations ''sad'' c) = 3)
   \<and> (c > 0.6 \<and> w \<ge> 0.3 \<and> s \<ge> 0.4 \<longrightarrow>
        generate_intelligent_recommendations ''sad'' c w s =
          [rec_gentle_self_care, rec_reach_out, rec_mindful_moment])"
proof (intro conjI impI)
  assume h: "c \<le> 0.6 \<and> w \<ge> 0.3 \<and> s \<ge> 0.4"
  then have "generate_intelligent_recommendations ''sad'' c w s =
             base_recommendations ''sad'' c"
    by (simp add: generate_without_override)
  with h show "generate_intelligent_recommendations ''sad'' c w s = []"
    by (simp add: base_recommendations_def)
next
  assume "c > 0.6"
  then show "base_recommendations ''sad'' c =
             [rec_gentle_self_care, rec_reach_out, rec_mindful_moment]"
    by (simp add: base_recommendations_def)
next
  assume "c > 0.6"
  then show "length (base_recommendations ''sad'' c) = 3"
    by (simp add: base_recommendations_def)
next
  assume h: "c > 0.6 \<and> w \<ge> 0.3 \<and> s \<ge> 0.4"
  then have "generate_intelligent_recommendations ''sad'' c w s =
             base_recommendations ''sad'' c"
    by (simp add: generate_without_override)
  with h show "generate_intelligent_recommendations ''sad'' c w s =
             [rec_gentle_self_care, rec_reach_out, rec_mindful_moment]"
    by (simp add: base_recommendations_def)
qed

theorem C10_sad_confidence_gate_witness:
  "generate_intelligent_recommendations ''sad'' 0.6 0.3 0.4 = []
   \<and> base_recommendations ''sad'' 0.61 =
         [rec_gentle_self_care, rec_reach_out, rec_mindful_moment]
   \<and> generate_intelligent_recommendations ''sad'' 0.61 0.3 0.4 =
         [rec_gentle_self_care, rec_reach_out, rec_mindful_moment]"
  using C10_sad_confidence_gate [of "0.6" "0.3" "0.4"]
    C10_sad_confidence_gate [of "0.61" "0.3" "0.4"]
  by simp

section \<open>Properties: wellness, stability and the trend of the route\<close>

lemma py_slice_from_neg: "0 < n \<Longrightarrow> py_slice_from xs (- int n) = most_recent n xs"
proof -
  assume "0 < n"
  have "nat (max 0 (int (length xs) - int n)) = length xs - n" by arith
  with \<open>0 < n\<close> show ?thesis
    by (simp add: py_slice_from_def py_bound_def most_recent_def)
qed

text \<open>The inner loop adds the weighted sum and the total intensity of the record.\<close>

lemma fold_wellness_item:
  "fold wellness_item r (a, b) = (a + weighted_sum r, b + total_intensity r)"
proof (induction r arbitrary: a b)
  case Nil
  then show ?case
    by (simp add: weighted_sum_def total_intensity_def weighted_emotions_def)
next
  case (Cons item r)
  obtain e v where item: "item = (e, v)" by (cases item)
  show ?case
  proof (cases "map_of emotion_weights e")
    case None
    then have "e \<notin> set (map fst emotion_weights)"
      by (simp add: map_of_eq_None_iff)
    with None show ?thesis
      using Cons.IH
      by (simp add: item wellness_item_def weighted_sum_def total_intensity_def
          weighted_emotions_def)
  next
    case (Some w)
    then have "e \<in> set (map fst emotion_weights)"
      by (metis map_of_eq_None_iff option.distinct(1) set_map)
    with Some show ?thesis
      using Cons.IH
      by (simp add: item wellness_item_def weighted_sum_def total_intensity_def
          weighted_emotions_def dict_get_def algebra_simps)
  qed
qed

text \<open>The outer loop appends one sample for each record of positive intensity.\<close>

lemma fold_wellness_record:
  "fold wellness_record records scores =
     scores @ map wellness_sample (filter (\<lambda>r. total_intensity r > 0) records)"
proof (induction records arbitrary: scores)
  case Nil
  then show ?case by simp
next
  case (Cons r records)
  then show ?case
    by (simp add: wellness_record_def fold_wellness_item wellness_sample_def clamp_def)
qed

lemma wellness_closed:
  "calculate_wellness_score h =
     (let samples = map wellness_sample
                      (filter (\<lambda>r. total_intensity r > 0) (most_recent 10 h))
      in if samples = [] then 0.5 else sum_list samples / real (length samples))"
proof (cases "h = []")
  case True
  then show ?thesis by (simp add: calculate_wellness_score_def most_recent_def)
next
  case False
  have "py_slice_from h (-10) = most_recent 10 h"
    using py_slice_from_neg [where n=10 and xs=h] by simp
  then show ?thesis using False
    by (simp add: calculate_wellness_score_def fold_wellness_record np_mean_def Let_def)
qed

lemma wellness_single_happy: "calculate_wellness_score [[(''happy'', 1.0)]] = 1.0"
  by (simp add: calculate_wellness_score_def py_slice_from_def py_bound_def
      wellness_record_def wellness_item_def emotion_weights_def np_mean_def)

text \<open>
  C2. For every history, the wellness score is the arithmetic mean of the samples
  clamp((weighted sum + total intensity) / (2 * total intensity), 0, 1) of those among
  the ten most recent records whose total intensity is strictly positive, the sums
  running over the emotions of the record that have a weight in the fixed table
  happy 1.0, sad -0.8, angry -1.0, surprised 0.3, fearful -0.7, disgusted -0.6,
  neutral 0.0; when no record of the window gives a sample (the empty history among
  others) the score is 0.5. The single record with happy 1.0 scores 1.0.
\<close>

theorem C2_wellness_score:
  "calculate_wellness_score h =
     (let samples = map wellness_sample
                      (filter (\<lambda>r. total_intensity r > 0) (most_recent 10 h))
      in if samples = [] then 0.5 else sum_list samples / real (length samples))
   \<and> ((\<forall>r \<in> set (most_recent 10 h). \<not> total_intensity r > 0)
        \<longrightarrow> calculate_wellness_score h = 0.5)
   \<and> map (\<lambda>e. dict_get emotion_weights e 0) canonical_emotions =
        [1.0, -0.8, -1.0, 0.3, -0.7, -0.6, 0.0]
   \<and> map fst emotion_weights = canonical_emotions
   \<and> calculate_wellness_score [] = 0.5
   \<and> calculate_wellness_score [[(''happy'', 1.0)]] = 1.0"
proof (intro conjI)
  show "calculate_wellness_score h =
     (let samples = map wellness_sample
                      (filter (\<lambda>r. total_intensity r > 0) (most_recent 10 h))
      in if samples = [] then 0.5 else sum_list samples / real (length samples))"
    by (rule wellness_closed)
  show "(\<forall>r \<in> set (most_recent 10 h). \<not> total_intensity r > 0)
        \<longrightarrow> calculate_wellness_score h = 0.5"
  proof
    assume "\<forall>r \<in> set (most_recent 10 h). \<not> total_intensity r > 0"
    then have "filter (\<lambda>r. total_intensity r > 0) (most_recent 10 h) = []"
      by (simp add: filter_empty_conv)
    then show "calculate_wellness_score h = 0.5"
      by (simp add: wellness_closed)
  qed
  show "map (\<lambda>e. dict_get emotion_weights e 0) canonical_emotions =
        [1.0, -0.8, -1.0, 0.3, -0.7, -0.6, 0.0]"
    by (simp add: canonical_emotions_def emotion_weights_def dict_get_def)
  show "map fst emotion_weights = canonical_emotions"
    by (simp add: canonical_emotions_def emotion_weights_def)
  show "calculate_wellness_score [] = 0.5"
    by (simp add: calculate_wellness_score_def)
  show "calculate_wellness_score [[(''happy'', 1.0)]] = 1.0"
    by (rule wellness_single_happy)
qed

text \<open>
  Eleven records, the oldest angry and the ten after it half happy, half neutral: the
  angry record is outside the window and the score is 0.75. Eleven records, the oldest
  happy, then nine of intensity 0 and an angry one: the window holds one usable record,
  the angry one, and the score is 0, the happy record not being reached. A record whose
  only emotion has no weight gives no sample, and the score is the default.
\<close>

theorem C2_wellness_score_witness:
  "calculate_wellness_score
     ([(''angry'', 1)] # replicate 10 [(''happy'', 1 / 2), (''neutral'', 1 / 2)]) = 3 / 4
   \<and> calculate_wellness_score
     ([(''happy'', 1)] # replicate 9 [(''neutral'', 0)] @ [[(''angry'', 1)]]) = 0
   \<and> calculate_wellness_score [[(''bored'', 1)]] = 1 / 2"
proof -
  let ?h = "[(''angry'', 1)] # replicate 10 [(''happy'', 1 / 2 :: real), (''neutral'', 1 / 2)]"
  let ?g = "[(''happy'', 1)] # replicate 9 [(''neutral'', 0 :: real)] @ [[(''angry'', 1)]]"
  have w: "weighted_sum [(''happy'', 1 / 2), (''neutral'', 1 / 2)] = 1 / 2"
    by (simp add: weighted_sum_def weighted_emotions_def emotion_weights_def dict_get_def)
  have t: "total_intensity [(''happy'', 1 / 2), (''neutral'', 1 / 2)] = 1"
    by (simp add: total_intensity_def weighted_emotions_def emotion_weights_def)
  have s: "wellness_sample [(''happy'', 1 / 2), (''neutral'', 1 / 2)] = 3 / 4"
    by (simp add: wellness_sample_def w t clamp_def)
  have m: "most_recent 10 ?h = replicate 10 [(''happy'', 1 / 2), (''neutral'', 1 / 2)]"
    by (simp add: most_recent_def)
  have a: "calculate_wellness_score ?h = 3 / 4"
    using C2_wellness_score [of ?h] by (simp add: m t s Let_def sum_list_replicate)
  have tn: "total_intensity [(''neutral'', 0)] = 0"
    by (simp add: total_intensity_def weighted_emotions_def emotion_weights_def)
  have ta: "total_intensity [(''angry'', 1)] = 1"
    by (simp add: total_intensity_def weighted_emotions_def emotion_weights_def)
  have sa: "wellness_sample [(''angry'', 1)] = 0"
    by (simp add: wellness_sample_def ta clamp_def weighted_sum_def weighted_emotions_def
        emotion_weights_def dict_get_def)
  have mg: "most_recent 10 ?g = replicate 9 [(''neutral'', 0)] @ [[(''angry'', 1)]]"
    by (simp add: most_recent_def)
  have g: "calculate_wellness_score ?g = 0"
    using C2_wellness_score [of ?g] by (simp add: mg tn ta sa Let_def)
  have t': "total_intensity [(''bored'', 1)] = 0"
    by (simp add: total_intensity_def weighted_emotions_def emotion_weights_def)
  have b: "calculate_wellness_score [[(''bored'', 1)]] = 1 / 2"
    using C2_wellness_score [of "[[(''bored'', 1)]]"] by (simp add: most_recent_def t')
  from a g b show ?thesis by simp
qed

lemma fold_stability_emotion:
  assumes "length recent > 1"
  shows "map snd (fold (stability_emotion recent) (map fst emotion_weights) []) =
         map (\<lambda>e. np_var (map (\<lambda>r. dict_get r e 0) recent)) canonical_emotions"
  using assms
  by (simp add: emotion_weights_def stability_emotion_def canonical_emotions_def)

lemma stability_closed:
  assumes "length h \<ge> 3"
  shows "calculate_stability_score h =
           clamp (max 0.1 (1 - average_variance h / 0.3)) 0 1"
proof -
  have r: "py_slice_from h (-5) = most_recent 5 h"
    using py_slice_from_neg [where n=5 and xs=h] by simp
  have l: "length (most_recent 5 h) > 1"
    using assms by (simp add: most_recent_def)
  show ?thesis
    using assms fold_stability_emotion [OF l]
    by (simp add: calculate_stability_score_def r average_variance_def clamp_def
        stability_threshold_def Let_def)
qed

text \<open>
  C3. A history of fewer than three records has stability 0.7. Otherwise the variance
  of each of the seven canonical emotions over the five most recent records is taken
  (an emotion missing from a record counts as 0), the seven variances are averaged, and
  the stability is clamp(max(0.1, 1 - average / 0.3), 0, 1).
\<close>

theorem C3_stability_score:
  "(length h < 3 \<longrightarrow> calculate_stability_score h = 0.7)
   \<and> (length h \<ge> 3 \<longrightarrow>
        calculate_stability_score h =
          clamp (max 0.1 (1 - average_variance h / 0.3)) 0 1)"
proof (intro conjI impI)
  assume "length h < 3"
  then show "calculate_stability_score h = 0.7"
    by (simp add: calculate_stability_score_def)
next
  assume "length h \<ge> 3"
  then show "calculate_stability_score h =
          clamp (max 0.1 (1 - average_variance h / 0.3)) 0 1"
    by (rule stability_closed)
qed

text \<open>
  Two records give the default. Three records with happy 1, 0, 1 and sad 0.5 in the
  last one have variances 2/9 and 1/18, average 5/126, and stability 164/189.
\<close>

theorem C3_stability_score_witness:
  "calculate_stability_score [[(''happy'', 1)], [(''happy'', 0)]] = 7 / 10
   \<and> calculate_stability_score
        [[(''happy'', 1)], [(''happy'', 0)], [(''happy'', 1), (''sad'', 1 / 2)]]
       = 164 / 189"
proof -
  let ?h = "[[(''happy'', 1::real)], [(''happy'', 0)], [(''happy'', 1), (''sad'', 1 / 2)]]"
  have a: "calculate_stability_score [[(''happy'', 1)], [(''happy'', 0)]] = 7 / 10"
    using C3_stability_score [of "[[(''happy'', 1)], [(''happy'', 0)]]"] by simp
  have v: "average_variance ?h = 5 / 126"
    by (simp add: average_variance_def most_recent_def canonical_emotions_def
        dict_get_def np_var_def np_mean_def power2_eq_square)
  have b: "calculate_stability_score ?h = 164 / 189"
    using C3_stability_score [of ?h] by (simp add: v clamp_def)
  from a b show ?thesis by simp
qed

text \<open>Whatever is stored, the history the route holds is empty.\<close>

lemma get_user_emotion_history_empty: "get_user_emotion_history records = []"
proof (cases records)
  case Nil
  then show ?thesis by (simp add: get_user_emotion_history_def)
next
  case (Cons r rs)
  then show ?thesis
    by (simp add: get_user_emotion_history_def history_record_def record_emotions_def)
qed

lemma predict_mood_trend_stable: "predict_mood_trend records = ''stable''"
  by (simp add: predict_mood_trend_def get_user_emotion_history_empty)

text \<open>
  C6, at an input where the code departs from it. Six records are stored, three with
  angry 1.0 and then three with happy 1.0. On this history the rule of lines 354 to 366
  gives improving, as the claim requires: the wellness of the last three records is 1,
  that of the three before them is 0. The route answers stable: it never holds the
  stored history, because reading \<^verbatim>\<open>record.emotions\<close> raises and the handler returns
  the empty list.
\<close>

theorem C6_stored_history_not_read:
  "predict_mood_trend
     [\<lparr>timestamp = 10, emotions_json = [(''angry'', 1)]\<rparr>,
      \<lparr>timestamp = 20, emotions_json = [(''angry'', 1)]\<rparr>,
      \<lparr>timestamp = 30, emotions_json = [(''angry'', 1)]\<rparr>,
      \<lparr>timestamp = 40, emotions_json = [(''happy'', 1)]\<rparr>,
      \<lparr>timestamp = 50, emotions_json = [(''happy'', 1)]\<rparr>,
      \<lparr>timestamp = 60, emotions_json = [(''happy'', 1)]\<rparr>] = ''stable''
   \<and> get_user_emotion_history
     [\<lparr>timestamp = 10, emotions_json = [(''angry'', 1)]\<rparr>,
      \<lparr>timestamp = 20, emotions_json = [(''angry'', 1)]\<rparr>,
      \<lparr>timestamp = 30, emotions_json = [(''angry'', 1)]\<rparr>,
      \<lparr>timestamp = 40, emotions_json = [(''happy'', 1)]\<rparr>,
      \<lparr>timestamp = 50, emotions_json = [(''happy'', 1)]\<rparr>,
      \<lparr>timestamp = 60, emotions_json = [(''happy'', 1)]\<rparr>] = []
   \<and> calculate_wellness_score [[(''happy'', 1)], [(''happy'', 1)], [(''happy'', 1)]] = 1
   \<and> calculate_wellness_score [[(''angry'', 1)], [(''angry'', 1)], [(''angry'', 1)]] = 0
   \<and> determine_trend
     [[(''angry'', 1)], [(''angry'', 1)], [(''angry'', 1)],
      [(''happy'', 1)], [(''happy'', 1)], [(''happy'', 1)]] = ''improving''"
proof (intro conjI)
  let ?a = "[(''angry'', 1::real)]" and ?p = "[(''happy'', 1::real)]"
  have wp: "calculate_wellness_score [?p, ?p, ?p] = 1"
    by (simp add: calculate_wellness_score_def py_slice_from_def py_bound_def
        wellness_record_def wellness_item_def emotion_weights_def np_mean_def)
  have wa: "calculate_wellness_score [?a, ?a, ?a] = 0"
    by (simp add: calculate_wellness_score_def py_slice_from_def py_bound_def
        wellness_record_def wellness_item_def emotion_weights_def np_mean_def)
  show "calculate_wellness_score [?p, ?p, ?p] = 1" by (rule wp)
  show "calculate_wellness_score [?a, ?a, ?a] = 0" by (rule wa)
  show "determine_trend [?a, ?a, ?a, ?p, ?p, ?p] = ''improving''"
    by (simp add: determine_trend_def py_slice_from_def py_slice_def py_bound_def wa wp)
next
  show "predict_mood_trend
     [\<lparr>timestamp = 10, emotions_json = [(''angry'', 1)]\<rparr>,
      \<lparr>timestamp = 20, emotions_json = [(''angry'', 1)]\<rparr>,
      \<lparr>timestamp = 30, emotions_json = [(''angry'', 1)]\<rparr>,
      \<lparr>timestamp = 40, emotions_json = [(''happy'', 1)]\<rparr>,
      \<lparr>timestamp = 50, emotions_json = [(''happy'', 1)]\<rparr>,
      \<lparr>timestamp = 60, emotions_json = [(''happy'', 1)]\<rparr>] = ''stable''"
    by (rule predict_mood_trend_stable)
  show "get_user_emotion_history
     [\<lparr>timestamp = 10, emotions_json = [(''angry'', 1)]\<rparr>,
      \<lparr>timestamp = 20, emotions_json = [(''angry'', 1)]\<rparr>,
      \<lparr>timestamp = 30, emotions_json = [(''angry'', 1)]\<rparr>,
      \<lparr>timestamp = 40, emotions_json = [(''happy'', 1)]\<rparr>,
      \<lparr>timestamp = 50, emotions_json = [(''happy'', 1)]\<rparr>,
      \<lparr>timestamp = 60, emotions_json = [(''happy'', 1)]\<rparr>] = []"
    by (rule get_user_emotion_history_empty)
qed

section \<open>Properties: peaks and anomalies\<close>

lemma map_of_defaultdict_append:
  "map_of (defaultdict_append d k v) e =
     (if e = k then Some (values_in d k @ [v]) else map_of d e)"
  by (induction d) (auto simp: values_in_def)

lemma values_in_append:
  "values_in (defaultdict_append d k v) e =
     (if e = k then values_in d e @ [v] else values_in d e)"
  by (simp add: values_in_def map_of_defaultdict_append)

lemma values_in_empty: "values_in [] e = []"
  by (simp add: values_in_def)

lemma baseline_item_pair: "baseline_item (k, v) d = defaultdict_append d k v"
  by (simp add: baseline_item_def)

lemma values_in_fold_item:
  "values_in (fold baseline_item items d) e =
     values_in d e @ map snd (filter (\<lambda>(e', v). e' = e) items)"
proof (induction items arbitrary: d)
  case Nil
  then show ?case by simp
next
  case (Cons item items)
  obtain k v where "item = (k, v)" by (cases item)
  then show ?case
    by (simp add: Cons.IH baseline_item_pair values_in_append)
qed

lemma values_in_fold_records:
  "values_in (fold (\<lambda>r d. fold baseline_item (emotions_json r) d) records d) e =
     values_in d e @ emotion_values e records"
proof (induction records arbitrary: d)
  case Nil
  then show ?case by (simp add: emotion_values_def)
next
  case (Cons r records)
  then show ?case
    by (simp add: values_in_fold_item emotion_values_def)
qed

lemma values_in_collect: "values_in (collect_baselines records) e = emotion_values e records"
  unfolding collect_baselines_def
  by (simp add: values_in_fold_records values_in_empty)

lemma map_of_map_values:
  "map_of (map (\<lambda>(k, v). (k, f v)) xs) e = map_option f (map_of xs e)"
  by (induction xs) auto

lemma map_of_compute_baselines:
  assumes "emotion_values e records \<noteq> []"
  shows "map_of (compute_baselines A records) e = Some (baseline A records e)"
proof -
  have "values_in (collect_baselines records) e = emotion_values e records"
    by (rule values_in_collect)
  with assms obtain vs where vs: "map_of (collect_baselines records) e = Some vs"
    and eq: "vs = emotion_values e records"
    by (auto simp: values_in_def split: option.splits)
  have "map_of (compute_baselines A records) e =
        map_option (\<lambda>values. fdiv A (fsum A values) (real (length values)))
          (map_of (collect_baselines records) e)"
    unfolding compute_baselines_def by (rule map_of_map_values)
  then show ?thesis by (simp add: vs eq baseline_def)
qed

lemma emotion_values_member:
  assumes "r \<in> set records" and "(e, v) \<in> set (emotions_json r)"
  shows "emotion_values e records \<noteq> []"
proof -
  from assms have "(e, v) \<in> set (concat (map emotions_json records))" by auto
  then have "(e, v) \<in> set (filter (\<lambda>(e', v). e' = e) (concat (map emotions_json records)))"
    by simp
  then show ?thesis
    unfolding emotion_values_def by (metis empty_iff list.map_disc_iff list.set(1))
qed

text \<open>One step of the inner loop of the detection, for an item whose baseline is known.\<close>

lemma peaks_item_known:
  assumes "map_of bs e = Some (baseline A records e)"
  shows "peaks_item A bs ts (e, v) (ps, as) =
           Inr (if is_peak A records (ts, e, v)
                then ps @ [peak_entry A records (ts, e, v)] else ps,
                if is_anomaly A (ts, e, v) then as @ [anomaly_entry A (ts, e, v)] else as)"
  using assms
  by (simp add: peaks_item_def is_peak_def is_anomaly_def peak_entry_def anomaly_entry_def
      threshold_multiplier_def)

lemma fold_result_peaks_item:
  assumes "\<forall>(e, v) \<in> set items. map_of bs e = Some (baseline A records e)"
  shows "fold_result (peaks_item A bs ts) items (ps, as) =
           Inr (ps @ map (peak_entry A records)
                      (filter (is_peak A records) (map (\<lambda>(e, v). (ts, e, v)) items)),
                as @ map (anomaly_entry A)
                      (filter (is_anomaly A) (map (\<lambda>(e, v). (ts, e, v)) items)))"
  using assms
proof (induction items arbitrary: ps as)
  case Nil
  then show ?case by simp
next
  case (Cons item items)
  obtain e v where item: "item = (e, v)" by (cases item)
  with Cons.prems have b: "map_of bs e = Some (baseline A records e)" by simp
  from Cons.prems
  have rest: "\<forall>(e, v) \<in> set items. map_of bs e = Some (baseline A records e)"
    by simp
  show ?case
    by (simp add: item peaks_item_known [OF b] Cons.IH [OF rest])
qed

lemma fold_result_records:
  assumes "\<forall>r \<in> set rs. \<forall>(e, v) \<in> set (emotions_json r).
             map_of bs e = Some (baseline A records e)"
  shows "fold_result (\<lambda>r. fold_result (peaks_item A bs (timestamp r)) (emotions_json r))
           rs (ps, as) =
           Inr (ps @ map (peak_entry A records) (filter (is_peak A records) (observations rs)),
                as @ map (anomaly_entry A) (filter (is_anomaly A) (observations rs)))"
  using assms
proof (induction rs arbitrary: ps as)
  case Nil
  then show ?case by (simp add: observations_def)
next
  case (Cons r rs)
  from Cons.prems
  have h: "\<forall>(e, v) \<in> set (emotions_json r). map_of bs e = Some (baseline A records e)"
    by simp
  from Cons.prems
  have rest: "\<forall>r \<in> set rs. \<forall>(e, v) \<in> set (emotions_json r).
                map_of bs e = Some (baseline A records e)"
    by simp
  show ?case
    by (simp add: fold_result_peaks_item [OF h] Cons.IH [OF rest] observations_def)
qed

lemma find_peaks_closed:
  "find_peaks A records = Inr (flagged_peaks A records, flagged_anomalies A records)"
proof -
  have "\<forall>r \<in> set records. \<forall>(e, v) \<in> set (emotions_json r).
          map_of (compute_baselines A records) e = Some (baseline A records e)"
    using emotion_values_member map_of_compute_baselines by blast
  then show ?thesis
    by (simp add: find_peaks_def fold_result_records flagged_peaks_def flagged_anomalies_def)
qed

lemma get_emotion_peaks_closed:
  "get_emotion_peaks A records =
     Inr \<lparr>resp_peaks = take 20 (sort_key (\<lambda>x. - intensity x) (flagged_peaks A records)),
          resp_anomalies = most_recent 10 (flagged_anomalies A records),
          resp_baselines = (if records = [] then None
             else Some (map (\<lambda>(k, v). (k, fround A v 3)) (compute_baselines A records)))\<rparr>"
proof (cases "records = []")
  case True
  then show ?thesis
    by (simp add: get_emotion_peaks_def flagged_peaks_def flagged_anomalies_def
        observations_def most_recent_def)
next
  case False
  have "py_slice_from (flagged_anomalies A records) (-10) =
        most_recent 10 (flagged_anomalies A records)"
    using py_slice_from_neg [where n=10 and xs="flagged_anomalies A records"] by simp
  moreover have "py_slice_to (sort_key (\<lambda>x. - intensity x) (flagged_peaks A records)) 20
      = take 20 (sort_key (\<lambda>x. - intensity x) (flagged_peaks A records))"
    using py_slice_to_nat [where n=20] by simp
  ultimately show ?thesis using False
    by (simp add: get_emotion_peaks_def find_peaks_closed)
qed

lemma sorted_desc_take:
  "sorted_wrt (\<lambda>p q. intensity p \<ge> intensity q)
     (take n (sort_key (\<lambda>x. - intensity x) ps))"
proof -
  have "sorted (map (\<lambda>x. - intensity x) (sort_key (\<lambda>x. - intensity x) ps))"
    by (rule sorted_sort_key)
  then have "sorted_wrt (\<lambda>p q. intensity p \<ge> intensity q) (sort_key (\<lambda>x. - intensity x) ps)"
    by (simp add: sorted_map)
  then show ?thesis by (rule sorted_wrt_take)
qed

lemma top_of_sorted:
  assumes "p \<in> set (take n (sort_key (\<lambda>x. - intensity x) ps))"
    and "q \<in> set (drop n (sort_key (\<lambda>x. - intensity x) ps))"
  shows "intensity q \<le> intensity p"
proof -
  let ?s = "sort_key (\<lambda>x. - intensity x) ps"
  have "sorted (map (\<lambda>x. - intensity x) ?s)" by (rule sorted_sort_key)
  then have "sorted_wrt (\<lambda>p q. intensity p \<ge> intensity q) (take n ?s @ drop n ?s)"
    by (simp add: sorted_map)
  then have "\<forall>x \<in> set (take n ?s). \<forall>y \<in> set (drop n ?s). intensity x \<ge> intensity y"
    unfolding sorted_wrt_append by blast
  with assms show ?thesis by blast
qed

text \<open>
  Rounding to \<open>n\<close> decimals without binary error gives a multiple of \<open>10 ^ - n\<close> at most
  half such a unit away.
\<close>

lemma round_half_even_near: "\<bar>of_int (round_half_even y) - y\<bar> \<le> 1 / 2"
proof -
  define f where "f = \<lfloor>y\<rfloor>"
  have b: "of_int f \<le> y" "y < of_int f + 1"
    unfolding f_def by linarith+
  have r: "round_half_even y =
           (if y - of_int f < 1 / 2 then f else if y - of_int f > 1 / 2 then f + 1
            else if even f then f else f + 1)"
    by (simp add: round_half_even_def Let_def f_def)
  show ?thesis
    unfolding r using b
    by (cases "y - of_int f < 1 / 2"; cases "y - of_int f > 1 / 2"; cases "even f";
        simp add: abs_if; linarith)
qed

lemma py_round_near: "\<bar>py_round x n - x\<bar> \<le> 1 / (2 * 10 ^ n)"
proof -
  let ?t = "of_int (round_half_even (x * 10 ^ n)) - x * 10 ^ n :: real"
  have p: "(10::real) ^ n > 0" by simp
  have "py_round x n - x = ?t / 10 ^ n"
    using p by (simp add: py_round_def field_simps)
  then have "\<bar>py_round x n - x\<bar> = \<bar>?t\<bar> / 10 ^ n"
    using p by (simp add: abs_divide)
  also have "\<dots> \<le> (1 / 2) / 10 ^ n"
    using round_half_even_near [of "x * 10 ^ n"] p
    by (intro divide_right_mono) simp_all
  finally show ?thesis by simp
qed

text \<open>
  Evaluating a rounding to double precision: once \<open>x\<close> is scaled by a power of two into
  the range of 53-bit integers, it is rounded there.
\<close>

lemma round_to_double_scaled:
  assumes lo: "2 ^ 52 \<le> \<bar>x\<bar> * 2 ^ k" and hi: "\<bar>x\<bar> * 2 ^ k < 2 ^ 53"
  shows "round_to_double x = of_int (round_half_even (x * 2 ^ k)) / 2 ^ k"
proof -
  have pos: "\<bar>x\<bar> > 0"
  proof (rule ccontr)
    assume "\<not> \<bar>x\<bar> > 0"
    then have "\<bar>x\<bar> * 2 ^ k = 0" by simp
    with lo show False by simp
  qed
  then have nz: "x \<noteq> 0" by auto
  have p: "(2::real) powr (52 - real k) = 2 ^ 52 / 2 ^ k"
    by (simp add: powr_diff powr_realpow)
  have q: "(2::real) powr (53 - real k) = 2 ^ 53 / 2 ^ k"
    by (simp add: powr_diff powr_realpow)
  have "2 powr (52 - real k) \<le> \<bar>x\<bar>"
    unfolding p using lo by (simp add: field_simps)
  then have l1: "52 - real k \<le> log 2 \<bar>x\<bar>"
    using pos by (simp add: le_log_iff)
  have "\<bar>x\<bar> < 2 powr (53 - real k)"
    unfolding q using hi by (simp add: field_simps)
  then have l2: "log 2 \<bar>x\<bar> < 53 - real k"
    using pos by (simp add: log_less_iff)
  have "\<lfloor>log 2 \<bar>x\<bar>\<rfloor> = 52 - int k"
    using l1 l2 by (intro floor_unique) simp_all
  then have e: "\<lfloor>log 2 \<bar>x\<bar>\<rfloor> - 52 = - int k" by simp
  have w: "(2::real) powr of_int (- int k) = 1 / 2 ^ k"
    by (simp add: powr_minus powr_realpow field_simps)
  show ?thesis
    using nz by (simp add: round_to_double_def e w Let_def del: of_int_minus)
qed

lemma round_to_double_zero: "round_to_double 0 = 0"
  by (simp add: round_to_double_def)

text \<open>
  In double precision the last digit decides. With happy 0.9 and 0.3 the baseline is
  the double 0.6 and its product with 1.5 is the double just below 0.9, so the value
  0.9 is flagged as a peak, of intensity 1.5; in exact arithmetic the product is 0.9
  and nothing is flagged.
\<close>

lemma double_product_below_value:
  "find_peaks double_arithmetic
     [\<lparr>timestamp = 10, emotions_json = [(''happy'', round_to_double (9 / 10))]\<rparr>,
      \<lparr>timestamp = 20, emotions_json = [(''happy'', round_to_double (3 / 10))]\<rparr>] =
     Inr ([\<lparr>peak_timestamp = 10, peak_emotion = ''happy'', peak_value = 8106479329266893 / 9007199254740992,
            peak_baseline = 5404319552844595 / 9007199254740992, intensity = 3 / 2\<rparr>], [])"
proof -
  have d0: "round_to_double (9 / 10) = 8106479329266893 / 9007199254740992"
    using round_to_double_scaled [of "9 / 10" 53] by (simp add: round_half_even_def)
  have d1: "round_to_double (3 / 10) = 5404319552844595 / 18014398509481984"
    using round_to_double_scaled [of "3 / 10" 54] by (simp add: round_half_even_def)
  have d2: "round_to_double (8106479329266893 / 9007199254740992) = 8106479329266893 / 9007199254740992"
    using round_to_double_scaled [of "8106479329266893 / 9007199254740992" 53] by (simp add: round_half_even_def)
  have d3: "round_to_double (21617278211378381 / 18014398509481984) = 5404319552844595 / 4503599627370496"
    using round_to_double_scaled [of "21617278211378381 / 18014398509481984" 52] by (simp add: round_half_even_def)
  have d4: "round_to_double (5404319552844595 / 9007199254740992) = 5404319552844595 / 9007199254740992"
    using round_to_double_scaled [of "5404319552844595 / 9007199254740992" 53] by (simp add: round_half_even_def)
  have d5: "round_to_double (3 / 2) = 3 / 2"
    using round_to_double_scaled [of "3 / 2" 52] by (simp add: round_half_even_def)
  have d6: "round_to_double (16212958658533785 / 18014398509481984) = 2026619832316723 / 2251799813685248"
    using round_to_double_scaled [of "16212958658533785 / 18014398509481984" 53] by (simp add: round_half_even_def)
  have d7: "round_to_double (7 / 10) = 3152519739159347 / 4503599627370496"
    using round_to_double_scaled [of "7 / 10" 53] by (simp add: round_half_even_def)
  have d8: "round_to_double (3 / 5) = 5404319552844595 / 9007199254740992"
    using round_to_double_scaled [of "3 / 5" 53] by (simp add: round_half_even_def)
  have d9: "round_to_double (8106479329266893 / 5404319552844595) = 3 / 2"
    using round_to_double_scaled [of "8106479329266893 / 5404319552844595" 52] by (simp add: round_half_even_def)
  show ?thesis
    by (simp add: find_peaks_def compute_baselines_def collect_baselines_def
        baseline_item_def peaks_item_def threshold_multiplier_def double_arithmetic_def
        py_round_def round_half_even_def round_to_double_zero d0 d1 d2 d3 d4 d5 d6 d7 d8 d9)
qed

lemma exact_product_equals_value:
  "find_peaks exact_arithmetic
     [\<lparr>timestamp = 10, emotions_json = [(''happy'', 9 / 10)]\<rparr>,
      \<lparr>timestamp = 20, emotions_json = [(''happy'', 3 / 10)]\<rparr>] = Inr ([], [])"
  by (simp add: find_peaks_def compute_baselines_def collect_baselines_def
      baseline_item_def peaks_item_def threshold_multiplier_def exact_arithmetic_def)

text \<open>
  With happy 0.74, 0.06 and 0 the quotient of the value by the baseline is a double
  below 2.775, and the intensity stored in double precision is 2.77.
\<close>

lemma double_quotient_below_exact:
  "find_peaks double_arithmetic
     [\<lparr>timestamp = 10, emotions_json = [(''happy'', round_to_double (37 / 50))]\<rparr>,
      \<lparr>timestamp = 20, emotions_json = [(''happy'', round_to_double (3 / 50))]\<rparr>,
      \<lparr>timestamp = 30, emotions_json = [(''happy'', round_to_double (0))]\<rparr>] =
     Inr ([\<lparr>peak_timestamp = 10, peak_emotion = ''happy'', peak_value = 3332663724254167 / 4503599627370496,
            peak_baseline = 2404922201015845 / 9007199254740992, intensity = 6237485483908137 / 2251799813685248\<rparr>], [])"
proof -
  have d0: "round_to_double (37 / 50) = 3332663724254167 / 4503599627370496"
    using round_to_double_scaled [of "37 / 50" 53] by (simp add: round_half_even_def)
  have d1: "round_to_double (3 / 50) = 1080863910568919 / 18014398509481984"
    using round_to_double_scaled [of "3 / 50" 57] by (simp add: round_half_even_def)
  have d2: "round_to_double (3332663724254167 / 4503599627370496) = 3332663724254167 / 4503599627370496"
    using round_to_double_scaled [of "3332663724254167 / 4503599627370496" 53] by (simp add: round_half_even_def)
  have d3: "round_to_double (14411518807585587 / 18014398509481984) = 3602879701896397 / 4503599627370496"
    using round_to_double_scaled [of "14411518807585587 / 18014398509481984" 53] by (simp add: round_half_even_def)
  have d4: "round_to_double (3602879701896397 / 4503599627370496) = 3602879701896397 / 4503599627370496"
    using round_to_double_scaled [of "3602879701896397 / 4503599627370496" 53] by (simp add: round_half_even_def)
  have d5: "round_to_double (3602879701896397 / 13510798882111488) = 4803839602528529 / 18014398509481984"
    using round_to_double_scaled [of "3602879701896397 / 13510798882111488" 54] by (simp add: round_half_even_def)
  have d6: "round_to_double (3 / 2) = 3 / 2"
    using round_to_double_scaled [of "3 / 2" 52] by (simp add: round_half_even_def)
  have d7: "round_to_double (14411518807585587 / 36028797018963968) = 3602879701896397 / 9007199254740992"
    using round_to_double_scaled [of "14411518807585587 / 36028797018963968" 54] by (simp add: round_half_even_def)
  have d8: "round_to_double (7 / 10) = 3152519739159347 / 4503599627370496"
    using round_to_double_scaled [of "7 / 10" 53] by (simp add: round_half_even_def)
  have d9: "round_to_double (267 / 1000) = 2404922201015845 / 9007199254740992"
    using round_to_double_scaled [of "267 / 1000" 54] by (simp add: round_half_even_def)
  have d10: "round_to_double (13330654897016668 / 4803839602528529) = 6248744482976563 / 2251799813685248"
    using round_to_double_scaled [of "13330654897016668 / 4803839602528529" 51] by (simp add: round_half_even_def)
  have d11: "round_to_double (277 / 100) = 6237485483908137 / 2251799813685248"
    using round_to_double_scaled [of "277 / 100" 51] by (simp add: round_half_even_def)
  have d12: "round_to_double (9 / 10) = 8106479329266893 / 9007199254740992"
    using round_to_double_scaled [of "9 / 10" 53] by (simp add: round_half_even_def)
  show ?thesis
    by (simp add: find_peaks_def compute_baselines_def collect_baselines_def
        baseline_item_def peaks_item_def threshold_multiplier_def double_arithmetic_def
        py_round_def round_half_even_def round_to_double_zero d0 d1 d2 d3 d4 d5 d6 d7 d8 d9 d10 d11 d12)
qed

text \<open>
  With happy 0.8, 0.1 and 0 the intensity stored in double precision is the double
  2.67, as in exact arithmetic.
\<close>

lemma double_intensity_is_rounded:
  "find_peaks double_arithmetic
     [\<lparr>timestamp = 10, emotions_json = [(''happy'', round_to_double (4 / 5))]\<rparr>,
      \<lparr>timestamp = 20, emotions_json = [(''happy'', round_to_double (1 / 10))]\<rparr>,
      \<lparr>timestamp = 30, emotions_json = [(''happy'', round_to_double (0))]\<rparr>] =
     Inr ([\<lparr>peak_timestamp = 10, peak_emotion = ''happy'', peak_value = 3602879701896397 / 4503599627370496,
            peak_baseline = 5404319552844595 / 18014398509481984, intensity = 1503076375634903 / 562949953421312\<rparr>], [])"
proof -
  have d0: "round_to_double (4 / 5) = 3602879701896397 / 4503599627370496"
    using round_to_double_scaled [of "4 / 5" 53] by (simp add: round_half_even_def)
  have d1: "round_to_double (1 / 10) = 3602879701896397 / 36028797018963968"
    using round_to_double_scaled [of "1 / 10" 56] by (simp add: round_half_even_def)
  have d2: "round_to_double (3602879701896397 / 4503599627370496) = 3602879701896397 / 4503599627370496"
    using round_to_double_scaled [of "3602879701896397 / 4503599627370496" 53] by (simp add: round_half_even_def)
  have d3: "round_to_double (32425917317067573 / 36028797018963968) = 8106479329266893 / 9007199254740992"
    using round_to_double_scaled [of "32425917317067573 / 36028797018963968" 53] by (simp add: round_half_even_def)
  have d4: "round_to_double (8106479329266893 / 9007199254740992) = 8106479329266893 / 9007199254740992"
    using round_to_double_scaled [of "8106479329266893 / 9007199254740992" 53] by (simp add: round_half_even_def)
  have d5: "round_to_double (8106479329266893 / 27021597764222976) = 5404319552844595 / 18014398509481984"
    using round_to_double_scaled [of "8106479329266893 / 27021597764222976" 54] by (simp add: round_half_even_def)
  have d6: "round_to_double (3 / 2) = 3 / 2"
    using round_to_double_scaled [of "3 / 2" 52] by (simp add: round_half_even_def)
  have d7: "round_to_double (16212958658533785 / 36028797018963968) = 2026619832316723 / 4503599627370496"
    using round_to_double_scaled [of "16212958658533785 / 36028797018963968" 54] by (simp add: round_half_even_def)
  have d8: "round_to_double (7 / 10) = 3152519739159347 / 4503599627370496"
    using round_to_double_scaled [of "7 / 10" 53] by (simp add: round_half_even_def)
  have d9: "round_to_double (3 / 10) = 5404319552844595 / 18014398509481984"
    using round_to_double_scaled [of "3 / 10" 54] by (simp add: round_half_even_def)
  have d10: "round_to_double (14411518807585588 / 5404319552844595) = 3002399751580331 / 1125899906842624"
    using round_to_double_scaled [of "14411518807585588 / 5404319552844595" 51] by (simp add: round_half_even_def)
  have d11: "round_to_double (267 / 100) = 1503076375634903 / 562949953421312"
    using round_to_double_scaled [of "267 / 100" 51] by (simp add: round_half_even_def)
  have d12: "round_to_double (9 / 10) = 8106479329266893 / 9007199254740992"
    using round_to_double_scaled [of "9 / 10" 53] by (simp add: round_half_even_def)
  show ?thesis
    by (simp add: find_peaks_def compute_baselines_def collect_baselines_def
        baseline_item_def peaks_item_def threshold_multiplier_def double_arithmetic_def
        py_round_def round_half_even_def round_to_double_zero d0 d1 d2 d3 d4 d5 d6 d7 d8 d9 d10 d11 d12)
qed

text \<open>
  C4, with the intensity as the code stores it. For every record sequence the
  detection returns, and the flagged peaks are exactly the entries of the (record,
  emotion, value) pairs with value > baseline * 1.5 and value > 0.7, in source order,
  where the baseline of an emotion is the mean of its values over the whole sequence;
  the intensity of a peak is value / baseline rounded to two decimals when the baseline
  is positive and 1 otherwise. The flagged anomalies are exactly the entries of the
  pairs with value > 0.9, whatever the baseline. The products, quotients, sums and
  roundings are those of the arithmetic the code runs in, whichever it is. Without
  binary error the rounding to two decimals gives a multiple of 0.01 at most 0.005
  away, and with baseline(happy) = 0.4 a value happy = 0.9 is a peak and not an
  anomaly.
\<close>

theorem C4_peak_and_anomaly_flags:
  "find_peaks A records =
     Inr (map (peak_entry A records) (filter (is_peak A records) (observations records)),
          map (anomaly_entry A) (filter (is_anomaly A) (observations records)))
   \<and> is_peak A records (ts, e, v) =
       (v > fmul A (baseline A records e) (literal A 1.5) \<and> v > literal A 0.7)
   \<and> baseline A records e =
       fdiv A (fsum A (emotion_values e records)) (real (length (emotion_values e records)))
   \<and> intensity (peak_entry A records (ts, e, v)) =
       (if baseline A records e > 0 then fround A (fdiv A v (baseline A records e)) 2
        else 1)
   \<and> is_anomaly A (ts, e, v) = (v > literal A 0.9)
   \<and> \<bar>fround exact_arithmetic x 2 - x\<bar> \<le> 1 / 200
   \<and> (\<exists>k::int. fround exact_arithmetic x 2 = of_int k / 100)
   \<and> (baseline exact_arithmetic records ''happy'' = 0.4 \<longrightarrow>
        is_peak exact_arithmetic records (ts, ''happy'', 0.9)
        \<and> \<not> is_anomaly exact_arithmetic (ts, ''happy'', 0.9))"
proof (intro conjI)
  show "find_peaks A records =
     Inr (map (peak_entry A records) (filter (is_peak A records) (observations records)),
          map (anomaly_entry A) (filter (is_anomaly A) (observations records)))"
    using find_peaks_closed [of A records]
    by (simp only: flagged_peaks_def flagged_anomalies_def)
  show "is_peak A records (ts, e, v) =
       (v > fmul A (baseline A records e) (literal A 1.5) \<and> v > literal A 0.7)"
    by (simp add: is_peak_def)
  show "baseline A records e =
       fdiv A (fsum A (emotion_values e records)) (real (length (emotion_values e records)))"
    by (simp add: baseline_def)
  show "intensity (peak_entry A records (ts, e, v)) =
       (if baseline A records e > 0 then fround A (fdiv A v (baseline A records e)) 2
        else 1)"
    by (simp add: peak_entry_def)
  show "is_anomaly A (ts, e, v) = (v > literal A 0.9)"
    by (simp add: is_anomaly_def)
  show "\<bar>fround exact_arithmetic x 2 - x\<bar> \<le> 1 / 200"
    using py_round_near [of x 2] by (simp add: exact_arithmetic_def)
  show "\<exists>k::int. fround exact_arithmetic x 2 = of_int k / 100"
    by (auto simp: exact_arithmetic_def py_round_def)
  show "baseline exact_arithmetic records ''happy'' = 0.4 \<longrightarrow>
        is_peak exact_arithmetic records (ts, ''happy'', 0.9)
        \<and> \<not> is_anomaly exact_arithmetic (ts, ''happy'', 0.9)"
    by (simp add: is_peak_def is_anomaly_def exact_arithmetic_def)
qed

text \<open>
  Three records with happy 0.9, 0.1 and 0.2, in exact arithmetic: the baseline is 0.4,
  the first value is flagged as a peak of intensity 2.25, and nothing is flagged as an
  anomaly. Two records with happy 0.9 and 0.3, in double precision: the pairs the
  statement flags are the one the detection returns, the value 0.9 with baseline 0.6
  and intensity 1.5.
\<close>

theorem C4_peak_and_anomaly_flags_witness:
  "find_peaks exact_arithmetic
     [\<lparr>timestamp = 10, emotions_json = [(''happy'', 9 / 10)]\<rparr>,
      \<lparr>timestamp = 20, emotions_json = [(''happy'', 1 / 10)]\<rparr>,
      \<lparr>timestamp = 30, emotions_json = [(''happy'', 1 / 5)]\<rparr>] =
     Inr ([\<lparr>peak_timestamp = 10, peak_emotion = ''happy'', peak_value = 9 / 10,
            peak_baseline = 2 / 5, intensity = 9 / 4\<rparr>], [])
   \<and> map (peak_entry double_arithmetic
          [\<lparr>timestamp = 10, emotions_json = [(''happy'', round_to_double (9 / 10))]\<rparr>,
           \<lparr>timestamp = 20, emotions_json = [(''happy'', round_to_double (3 / 10))]\<rparr>])
       (filter (is_peak double_arithmetic
          [\<lparr>timestamp = 10, emotions_json = [(''happy'', round_to_double (9 / 10))]\<rparr>,
           \<lparr>timestamp = 20, emotions_json = [(''happy'', round_to_double (3 / 10))]\<rparr>])
         (observations
          [\<lparr>timestamp = 10, emotions_json = [(''happy'', round_to_double (9 / 10))]\<rparr>,
           \<lparr>timestamp = 20, emotions_json = [(''happy'', round_to_double (3 / 10))]\<rparr>]))
       = [\<lparr>peak_timestamp = 10, peak_emotion = ''happy'',
            peak_value = 8106479329266893 / 9007199254740992,
            peak_baseline = 5404319552844595 / 9007199254740992, intensity = 3 / 2\<rparr>]"
proof (intro conjI)
  let ?R = "[\<lparr>timestamp = 10, emotions_json = [(''happy'', 9 / 10 :: real)]\<rparr>,
      \<lparr>timestamp = 20, emotions_json = [(''happy'', 1 / 10)]\<rparr>,
      \<lparr>timestamp = 30, emotions_json = [(''happy'', 1 / 5)]\<rparr>]"
  have b: "baseline exact_arithmetic ?R ''happy'' = 2 / 5"
    by (simp add: baseline_def emotion_values_def exact_arithmetic_def)
  have o: "observations ?R =
           [(10, ''happy'', 9 / 10), (20, ''happy'', 1 / 10), (30, ''happy'', 1 / 5)]"
    by (simp add: observations_def)
  have p: "is_peak exact_arithmetic ?R (10, ''happy'', 9 / 10)"
    "\<not> is_peak exact_arithmetic ?R (20, ''happy'', 1 / 10)"
    "\<not> is_peak exact_arithmetic ?R (30, ''happy'', 1 / 5)"
    by (simp_all add: is_peak_def b) (simp_all add: exact_arithmetic_def)
  have a: "\<not> is_anomaly exact_arithmetic (10, ''happy'', 9 / 10)"
    "\<not> is_anomaly exact_arithmetic (20, ''happy'', 1 / 10)"
    "\<not> is_anomaly exact_arithmetic (30, ''happy'', 1 / 5)"
    by (simp_all add: is_anomaly_def exact_arithmetic_def)
  have e: "peak_entry exact_arithmetic ?R (10, ''happy'', 9 / 10) =
           \<lparr>peak_timestamp = 10, peak_emotion = ''happy'', peak_value = 9 / 10,
            peak_baseline = 2 / 5, intensity = 9 / 4\<rparr>"
    by (simp add: peak_entry_def b) (simp add: exact_arithmetic_def py_round_def
        round_half_even_def)
  show "find_peaks exact_arithmetic ?R =
     Inr ([\<lparr>peak_timestamp = 10, peak_emotion = ''happy'', peak_value = 9 / 10,
            peak_baseline = 2 / 5, intensity = 9 / 4\<rparr>], [])"
    using C4_peak_and_anomaly_flags [of exact_arithmetic ?R 10 "''happy''" "9 / 10" 0]
    by (simp add: o p a e)
next
  let ?D = "[\<lparr>timestamp = 10, emotions_json = [(''happy'', round_to_double (9 / 10))]\<rparr>,
           \<lparr>timestamp = 20, emotions_json = [(''happy'', round_to_double (3 / 10))]\<rparr>]"
  have "find_peaks double_arithmetic ?D =
     Inr (map (peak_entry double_arithmetic ?D)
            (filter (is_peak double_arithmetic ?D) (observations ?D)),
          map (anomaly_entry double_arithmetic)
            (filter (is_anomaly double_arithmetic) (observations ?D)))"
    using C4_peak_and_anomaly_flags [of double_arithmetic ?D] by (rule conjunct1)
  then show "map (peak_entry double_arithmetic ?D)
       (filter (is_peak double_arithmetic ?D) (observations ?D))
       = [\<lparr>peak_timestamp = 10, peak_emotion = ''happy'',
            peak_value = 8106479329266893 / 9007199254740992,
            peak_baseline = 5404319552844595 / 9007199254740992, intensity = 3 / 2\<rparr>]"
    unfolding double_product_below_value by simp
qed

text \<open>
  The specification gives a peak the intensity value / baseline. With happy 0.8, 0.1
  and 0 the baseline is 0.3, the first value is a peak, and the intensity stored for it
  is 2.67, not 8/3.
\<close>

theorem C4_unrounded_intensity_counterexample:
  "find_peaks exact_arithmetic
     [\<lparr>timestamp = 10, emotions_json = [(''happy'', 4 / 5)]\<rparr>,
      \<lparr>timestamp = 20, emotions_json = [(''happy'', 1 / 10)]\<rparr>,
      \<lparr>timestamp = 30, emotions_json = [(''happy'', 0)]\<rparr>] =
     Inr ([\<lparr>peak_timestamp = 10, peak_emotion = ''happy'', peak_value = 4 / 5,
            peak_baseline = 3 / 10, intensity = 267 / 100\<rparr>], [])
   \<and> baseline exact_arithmetic
     [\<lparr>timestamp = 10, emotions_json = [(''happy'', 4 / 5)]\<rparr>,
      \<lparr>timestamp = 20, emotions_json = [(''happy'', 1 / 10)]\<rparr>,
      \<lparr>timestamp = 30, emotions_json = [(''happy'', 0)]\<rparr>] ''happy'' = 3 / 10
   \<and> (267 / 100 :: real) \<noteq> (4 / 5) / (3 / 10)"
  by (simp add: find_peaks_def compute_baselines_def collect_baselines_def
      baseline_item_def peaks_item_def threshold_multiplier_def exact_arithmetic_def
      py_round_def round_half_even_def baseline_def emotion_values_def)

text \<open>
  C5. For every record sequence the route answers, the returned peaks are in decreasing
  order of intensity, there are at most 20 of them (all of them when fewer were
  flagged), and they are the top ones: the flagged peaks are the returned ones plus a
  rest none of which has a greater intensity than a returned one. The returned
  anomalies are the last 10 flagged anomalies (all when fewer), in source order, with
  no sorting. This holds in every arithmetic.
\<close>

theorem C5_ranking_and_recency:
  "(case get_emotion_peaks A records of
      Inl e \<Rightarrow> False
    | Inr res \<Rightarrow>
        sorted_wrt (\<lambda>p q. intensity p \<ge> intensity q) (resp_peaks res)
        \<and> length (resp_peaks res) = min 20 (length (flagged_peaks A records))
        \<and> (\<exists>rest. mset (resp_peaks res @ rest) = mset (flagged_peaks A records)
              \<and> (\<forall>p \<in> set (resp_peaks res). \<forall>q \<in> set rest. intensity q \<le> intensity p))
        \<and> resp_anomalies res = most_recent 10 (flagged_anomalies A records)
        \<and> length (resp_anomalies res) = min 10 (length (flagged_anomalies A records)))"
proof -
  let ?s = "sort_key (\<lambda>x. - intensity x) (flagged_peaks A records)"
  have m: "mset (take 20 ?s @ drop 20 ?s) = mset (flagged_peaks A records)"
    by simp
  have t: "\<forall>p \<in> set (take 20 ?s). \<forall>q \<in> set (drop 20 ?s). intensity q \<le> intensity p"
    using top_of_sorted by blast
  have e: "\<exists>rest. mset (take 20 ?s @ rest) = mset (flagged_peaks A records)
              \<and> (\<forall>p \<in> set (take 20 ?s). \<forall>q \<in> set rest. intensity q \<le> intensity p)"
    using m t by blast
  have l: "length (most_recent 10 (flagged_anomalies A records)) =
           min 10 (length (flagged_anomalies A records))"
    by (simp add: most_recent_def)
  show ?thesis
    using e l by (simp add: get_emotion_peaks_closed sorted_desc_take del: append_take_drop_id)
qed

text \<open>
  Two peaks flagged in the order happy (2.76), sad (2.85) are returned as sad, happy;
  the two anomalies stay in source order, the smaller value first.
\<close>

theorem C5_ranking_and_recency_witness:
  "\<exists>res. get_emotion_peaks exact_arithmetic
     [\<lparr>timestamp = 10, emotions_json = [(''happy'', 23 / 25), (''sad'', 0)]\<rparr>,
      \<lparr>timestamp = 20, emotions_json = [(''happy'', 1 / 25), (''sad'', 19 / 20)]\<rparr>,
      \<lparr>timestamp = 30, emotions_json = [(''happy'', 1 / 25), (''sad'', 1 / 20)]\<rparr>] = Inr res
   \<and> map peak_emotion (resp_peaks res) = [''sad'', ''happy'']
   \<and> map intensity (resp_peaks res) = [57 / 20, 69 / 25]
   \<and> sorted_wrt (\<lambda>p q. intensity p \<ge> intensity q) (resp_peaks res)
   \<and> map anomaly_value (resp_anomalies res) = [23 / 25, 19 / 20]"
proof -
  let ?R = "[\<lparr>timestamp = 10, emotions_json = [(''happy'', 23 / 25 :: real), (''sad'', 0)]\<rparr>,
      \<lparr>timestamp = 20, emotions_json = [(''happy'', 1 / 25), (''sad'', 19 / 20)]\<rparr>,
      \<lparr>timestamp = 30, emotions_json = [(''happy'', 1 / 25), (''sad'', 1 / 20)]\<rparr>]"
  have e: "get_emotion_peaks exact_arithmetic ?R = Inr \<lparr>resp_peaks =
          [\<lparr>peak_timestamp = 20, peak_emotion = ''sad'', peak_value = 19 / 20,
              peak_baseline = 333 / 1000, intensity = 57 / 20\<rparr>,
           \<lparr>peak_timestamp = 10, peak_emotion = ''happy'', peak_value = 23 / 25,
              peak_baseline = 333 / 1000, intensity = 69 / 25\<rparr>],
          resp_anomalies =
            [\<lparr>anomaly_timestamp = 10, anomaly_emotion = ''happy'',
                anomaly_value = 23 / 25, anomaly_type = ''high_intensity''\<rparr>,
             \<lparr>anomaly_timestamp = 20, anomaly_emotion = ''sad'', anomaly_value = 19 / 20,
                anomaly_type = ''high_intensity''\<rparr>],
          resp_baselines = Some [(''happy'', 333 / 1000), (''sad'', 333 / 1000)]\<rparr>"
    by (simp add: get_emotion_peaks_def find_peaks_def compute_baselines_def
        collect_baselines_def baseline_item_def peaks_item_def threshold_multiplier_def
        exact_arithmetic_def py_round_def round_half_even_def py_slice_to_def
        py_slice_from_def py_bound_def)
  have s: "sorted_wrt (\<lambda>p q. intensity p \<ge> intensity q)
          [\<lparr>peak_timestamp = 20, peak_emotion = ''sad'', peak_value = 19 / 20,
              peak_baseline = 333 / 1000, intensity = 57 / 20\<rparr>,
           \<lparr>peak_timestamp = 10, peak_emotion = ''happy'', peak_value = 23 / 25,
              peak_baseline = 333 / 1000, intensity = 69 / 25 :: real\<rparr>]"
    using C5_ranking_and_recency [of exact_arithmetic ?R] unfolding e by simp
  show ?thesis
    unfolding e using s by simp
qed

section \<open>Properties: stress levels\<close>

lemma stress_record_bucket:
  "stress_record r (h, m, l) =
     (case bucket_of (dominant_emotion r) of
        High \<Rightarrow> (h + 1, m, l) | Medium \<Rightarrow> (h, m + 1, l) | Low \<Rightarrow> (h, m, l + 1))"
  by (simp add: stress_record_def bucket_of_def dominant_emotion_def stress_emotions_def
      positive_emotions_def Let_def)

lemma fold_stress_record:
  "fold stress_record records (h, m, l) =
     (h + bucket_count High records, m + bucket_count Medium records,
      l + bucket_count Low records)"
proof (induction records arbitrary: h m l)
  case Nil
  then show ?case by (simp add: bucket_count_def)
next
  case (Cons r records)
  show ?case
    by (cases "bucket_of (dominant_emotion r)")
      (simp_all add: stress_record_bucket Cons.IH bucket_count_def)
qed

lemma bucket_counts_total:
  "bucket_count Low records + bucket_count Medium records + bucket_count High records =
     length records"
proof (induction records)
  case Nil
  then show ?case by (simp add: bucket_count_def)
next
  case (Cons r records)
  then show ?case
    by (cases "bucket_of (dominant_emotion r)") (simp_all add: bucket_count_def)
qed

lemma py_max_key_in: "py_max_key key best xs \<in> set (best # xs)"
  by (induction xs arbitrary: best) (auto split: if_splits)

lemma py_max_key_ge_best: "key best \<le> key (py_max_key key best xs)"
proof (induction xs arbitrary: best)
  case Nil
  then show ?case by simp
next
  case (Cons x xs)
  have "key best \<le> key (if key x > key best then x else best)" by simp
  also have "\<dots> \<le> key (py_max_key key (if key x > key best then x else best) xs)"
    by (rule Cons.IH)
  finally show ?case by simp
qed

lemma py_max_key_ge: "x \<in> set xs \<Longrightarrow> key x \<le> key (py_max_key key best xs)"
proof (induction xs arbitrary: best)
  case Nil
  then show ?case by simp
next
  case (Cons y ys)
  show ?case
  proof (cases "x = y")
    case True
    have "key y \<le> key (if key y > key best then y else best)" by simp
    also have "\<dots> \<le> key (py_max_key key (if key y > key best then y else best) ys)"
      by (rule py_max_key_ge_best)
    finally show ?thesis using True by simp
  next
    case False
    with Cons.prems have "x \<in> set ys" by simp
    then show ?thesis using Cons.IH by simp
  qed
qed

lemma max_emotion_is_max:
  assumes "es \<noteq> []"
  shows "max_emotion es \<in> set es \<and> (\<forall>item \<in> set es. snd item \<le> snd (max_emotion es))"
proof -
  from assms obtain item rest where es: "es = item # rest" by (cases es) auto
  have "py_max_key snd item rest \<in> set (item # rest)" by (rule py_max_key_in)
  moreover have "\<forall>x \<in> set (item # rest). snd x \<le> snd (py_max_key snd item rest)"
    using py_max_key_ge_best [of snd item rest] py_max_key_ge [of _ rest snd item] by auto
  ultimately show ?thesis by (simp add: es max_emotion_def)
qed

lemma stress_levels_closed:
  assumes "records \<noteq> []"
  shows "pattern_stress_levels records =
     \<lparr>low = real (bucket_count Low records) / real (length records) * 100,
      medium = real (bucket_count Medium records) / real (length records) * 100,
      high = real (bucket_count High records) / real (length records) * 100\<rparr>"
  using assms by (simp add: pattern_stress_levels_def fold_stress_record Let_def)

lemma percentages_sum:
  assumes "records \<noteq> []"
  shows "real (bucket_count Low records) / real (length records) * 100 +
         real (bucket_count Medium records) / real (length records) * 100 +
         real (bucket_count High records) / real (length records) * 100 = 100"
proof -
  have n: "real (length records) > 0" using assms by simp
  have "real (bucket_count Low records) + real (bucket_count Medium records) +
        real (bucket_count High records) = real (length records)"
    using bucket_counts_total [of records] by (metis of_nat_add)
  then show ?thesis using n by (simp add: field_simps)
qed

text \<open>
  C7. For a non-empty record sequence, every record falls in exactly one bucket by its
  dominant emotion (an item of greatest value of the record): high for angry, fearful,
  disgusted and sad, low for happy, medium for everything else; each returned level is
  bucket count / number of records * 100, and the three levels sum to 100. For the
  empty sequence the result is 33.3 for each level.
\<close>

theorem C7_stress_levels:
  "(records \<noteq> [] \<longrightarrow>
      low (pattern_stress_levels records) =
        real (bucket_count Low records) / real (length records) * 100
      \<and> medium (pattern_stress_levels records) =
        real (bucket_count Medium records) / real (length records) * 100
      \<and> high (pattern_stress_levels records) =
        real (bucket_count High records) / real (length records) * 100
      \<and> low (pattern_stress_levels records) + medium (pattern_stress_levels records)
          + high (pattern_stress_levels records) = 100)
   \<and> bucket_count Low records + bucket_count Medium records + bucket_count High records
       = length records
   \<and> (records = [] \<longrightarrow>
        pattern_stress_levels records = \<lparr>low = 33.3, medium = 33.3, high = 33.3\<rparr>)
   \<and> (bucket_of e = High) = (e \<in> {''angry'', ''fearful'', ''disgusted'', ''sad''})
   \<and> (bucket_of e = Low) = (e = ''happy'')
   \<and> (bucket_of e = Medium) =
       (e \<notin> {''angry'', ''fearful'', ''disgusted'', ''sad'', ''happy''})
   \<and> (emotions_json r \<noteq> [] \<longrightarrow>
        max_emotion (emotions_json r) \<in> set (emotions_json r)
        \<and> (\<forall>item \<in> set (emotions_json r).
              snd item \<le> snd (max_emotion (emotions_json r))))
   \<and> (emotions_json r = [] \<longrightarrow> bucket_of (dominant_emotion r) = Medium)"
proof (intro conjI impI)
  assume ne: "records \<noteq> []"
  show "low (pattern_stress_levels records) =
        real (bucket_count Low records) / real (length records) * 100"
    by (simp add: stress_levels_closed [OF ne])
  show "medium (pattern_stress_levels records) =
        real (bucket_count Medium records) / real (length records) * 100"
    by (simp add: stress_levels_closed [OF ne])
  show "high (pattern_stress_levels records) =
        real (bucket_count High records) / real (length records) * 100"
    by (simp add: stress_levels_closed [OF ne])
  show "low (pattern_stress_levels records) + medium (pattern_stress_levels records)
          + high (pattern_stress_levels records) = 100"
    using percentages_sum [OF ne] by (simp add: stress_levels_closed [OF ne])
next
  show "bucket_count Low records + bucket_count Medium records + bucket_count High records
       = length records"
    by (rule bucket_counts_total)
next
  assume "records = []"
  then show "pattern_stress_levels records = \<lparr>low = 33.3, medium = 33.3, high = 33.3\<rparr>"
    by (simp add: pattern_stress_levels_def)
next
  show "(bucket_of e = High) = (e \<in> {''angry'', ''fearful'', ''disgusted'', ''sad''})"
    by (simp add: bucket_of_def)
  show "(bucket_of e = Low) = (e = ''happy'')"
    by (auto simp: bucket_of_def)
  show "(bucket_of e = Medium) =
       (e \<notin> {''angry'', ''fearful'', ''disgusted'', ''sad'', ''happy''})"
    by (simp add: bucket_of_def)
next
  assume "emotions_json r \<noteq> []"
  then show "max_emotion (emotions_json r) \<in> set (emotions_json r)"
    using max_emotion_is_max by blast
next
  assume "emotions_json r \<noteq> []"
  then show "\<forall>item \<in> set (emotions_json r). snd item \<le> snd (max_emotion (emotions_json r))"
    using max_emotion_is_max by blast
next
  assume "emotions_json r = []"
  then show "bucket_of (dominant_emotion r) = Medium"
    by (simp add: dominant_emotion_def max_emotion_def bucket_of_def)
qed

text \<open>
  Four records: happy and sad tied at 0.5 (the first item, happy, is dominant: low),
  sad above happy (high), an empty dictionary and an unknown emotion (both medium).
\<close>

theorem C7_stress_levels_witness:
  "pattern_stress_levels
     [\<lparr>timestamp = 10, emotions_json = [(''happy'', 1 / 2), (''sad'', 1 / 2)]\<rparr>,
      \<lparr>timestamp = 20, emotions_json = [(''happy'', 1 / 4), (''sad'', 1 / 2)]\<rparr>,
      \<lparr>timestamp = 30, emotions_json = []\<rparr>,
      \<lparr>timestamp = 40, emotions_json = [(''bored'', 0)]\<rparr>] =
     \<lparr>low = 25, medium = 50, high = 25\<rparr>"
proof -
  let ?R = "[\<lparr>timestamp = 10, emotions_json = [(''happy'', 1 / 2 :: real), (''sad'', 1 / 2)]\<rparr>,
      \<lparr>timestamp = 20, emotions_json = [(''happy'', 1 / 4), (''sad'', 1 / 2)]\<rparr>,
      \<lparr>timestamp = 30, emotions_json = []\<rparr>,
      \<lparr>timestamp = 40, emotions_json = [(''bored'', 0)]\<rparr>]"
  have c: "bucket_count Low ?R = 1" "bucket_count Medium ?R = 2" "bucket_count High ?R = 1"
    by (simp_all add: bucket_count_def bucket_of_def dominant_emotion_def max_emotion_def)
  have "low (pattern_stress_levels ?R) = 25 \<and> medium (pattern_stress_levels ?R) = 50
        \<and> high (pattern_stress_levels ?R) = 25"
    using C7_stress_levels [of ?R] by (simp add: c)
  then show ?thesis by (cases "pattern_stress_levels ?R") simp
qed

section \<open>Properties: validation\<close>

text \<open>What the two tests of the loop accept: the numeric values in [0, 1] and the booleans.\<close>

lemma value_check:
  "(isinstance_int_float v \<and> 0 \<le> number_value v \<and> number_value v \<le> 1) =
     (numeric_in_unit_interval v \<or> (\<exists>b. v = JBool b))"
  by (cases v) auto

lemma validate_required_iff:
  "validate_required d names =
     (\<forall>e \<in> set names.
        \<exists>v. map_of d e = Some v \<and> (numeric_in_unit_interval v \<or> (\<exists>b. v = JBool b)))"
proof (induction names)
  case Nil
  then show ?case by simp
next
  case (Cons e names)
  show ?case
  proof (cases "map_of d e")
    case None
    then show ?thesis by simp
  next
    case (Some v)
    then show ?thesis
      using Cons.IH value_check [of v] by auto
  qed
qed

lemma validate_emotion_data_iff:
  "validate_emotion_data j =
     (\<exists>d. j = JObject d \<and>
        (\<forall>e \<in> set canonical_emotions.
           \<exists>v. map_of d e = Some v \<and> (numeric_in_unit_interval v \<or> (\<exists>b. v = JBool b))))"
proof -
  have s: "set required_emotions = set canonical_emotions"
    by (auto simp: required_emotions_def canonical_emotions_def)
  show ?thesis
    by (cases j) (simp_all add: validate_emotion_data_def validate_required_iff s)
qed

lemma valid_emotion_vector_iff:
  "valid_emotion_vector j =
     (\<exists>d. j = JObject d \<and>
        (\<forall>e \<in> set canonical_emotions.
           \<exists>v. map_of d e = Some v \<and> numeric_in_unit_interval v))"
  by (cases j) (auto simp: valid_emotion_vector_def list_all_iff split: option.splits)

text \<open>Every valid vector is accepted, and the two agree on vectors without booleans.\<close>

lemma valid_is_accepted: "valid_emotion_vector j \<Longrightarrow> validate_emotion_data j"
  unfolding valid_emotion_vector_iff validate_emotion_data_iff by blast

lemma validate_without_booleans:
  assumes "\<forall>e \<in> set canonical_emotions. \<forall>b. map_of d e \<noteq> Some (JBool b)"
  shows "validate_emotion_data (JObject d) = valid_emotion_vector (JObject d)"
proof
  assume "validate_emotion_data (JObject d)"
  then have "\<forall>e \<in> set canonical_emotions.
      \<exists>v. map_of d e = Some v \<and> (numeric_in_unit_interval v \<or> (\<exists>b. v = JBool b))"
    by (simp add: validate_emotion_data_iff)
  with assms have "\<forall>e \<in> set canonical_emotions.
      \<exists>v. map_of d e = Some v \<and> numeric_in_unit_interval v"
    by metis
  then show "valid_emotion_vector (JObject d)"
    by (simp add: valid_emotion_vector_iff)
next
  assume "valid_emotion_vector (JObject d)"
  then show "validate_emotion_data (JObject d)" by (rule valid_is_accepted)
qed

text \<open>
  C9, at an input where the code departs from it. The mapping with happy and neutral
  true and the five other canonical keys false has no numeric value at all, so it is not
  a valid emotion vector and the claim has it rejected. The validation accepts it:
  \<^verbatim>\<open>isinstance(value, (int, float))\<close> holds of a boolean, which then compares as 0 or 1,
  although the comment of the test reads that the values are floats between 0 and 1.
\<close>

theorem C9_boolean_vector_accepted:
  "validate_emotion_data
     (JObject [(''happy'', JBool True), (''sad'', JBool False), (''angry'', JBool False),
               (''fearful'', JBool False), (''disgusted'', JBool False),
               (''surprised'', JBool False), (''neutral'', JBool True)])
   \<and> \<not> valid_emotion_vector
     (JObject [(''happy'', JBool True), (''sad'', JBool False), (''angry'', JBool False),
               (''fearful'', JBool False), (''disgusted'', JBool False),
               (''surprised'', JBool False), (''neutral'', JBool True)])
   \<and> \<not> numeric_in_unit_interval (JBool True)"
proof (intro conjI)
  show "validate_emotion_data
     (JObject [(''happy'', JBool True), (''sad'', JBool False), (''angry'', JBool False),
               (''fearful'', JBool False), (''disgusted'', JBool False),
               (''surprised'', JBool False), (''neutral'', JBool True)])"
    by (simp add: validate_emotion_data_def required_emotions_def)
  show "\<not> valid_emotion_vector
     (JObject [(''happy'', JBool True), (''sad'', JBool False), (''angry'', JBool False),
               (''fearful'', JBool False), (''disgusted'', JBool False),
               (''surprised'', JBool False), (''neutral'', JBool True)])"
    by (simp add: valid_emotion_vector_def canonical_emotions_def)
  show "\<not> numeric_in_unit_interval (JBool True)"
    by simp
qed

end
